theory Spec2Isabelle
  imports Complex_Main "HOL-Library.Multiset"
begin

section \<open>Numbers, errors and Python builtins\<close>

text \<open>
  The chart pipeline computes with Python floats. They are modelled as exact reals: every
  comparison, sum, quotient and rounding below is the one the source writes, read over
  \<^typ>\<open>real\<close>. Exceptions are values of \<open>py_error\<close>; a function that can raise returns
  \<open>py_error + 'a\<close>.
\<close>

datatype py_error = KeyError string | ValueError | ZeroDivisionError

text \<open>
  \<^verbatim>\<open>round(x, n)\<close> and \<^verbatim>\<open>np.round(x, n)\<close>: the nearest multiple of \<open>10^-n\<close>, a tie going to
  the even neighbour.
\<close>

definition round_half_even :: "real \<Rightarrow> int" where
  "round_half_even x =
     (let f = \<lfloor>x\<rfloor>; r = x - of_int f
      in if r < 1 / 2 then f
         else if 1 / 2 < r then f + 1
         else if even f then f else f + 1)"

definition py_round :: "real \<Rightarrow> nat \<Rightarrow> real" where
  "py_round x n = of_int (round_half_even (x * 10 ^ n)) / 10 ^ n"

text \<open>\<^verbatim>\<open>max(iterable)\<close>: raises ValueError on an empty iterable.\<close>

fun py_max :: "real list \<Rightarrow> py_error + real" where
  "py_max [] = Inl ValueError"
| "py_max (x # xs) = Inr (fold (\<lambda>item m. if m < item then item else m) xs x)"

text \<open>\<^verbatim>\<open>m or d\<close> on floats: \<open>0.0\<close> is the only falsy float.\<close>

definition py_or :: "real \<Rightarrow> real \<Rightarrow> real" where
  "py_or m d = (if m = 0 then d else m)"

text \<open>\<^verbatim>\<open>a / b\<close> on floats: raises ZeroDivisionError when the divisor is 0.\<close>

definition py_truediv :: "real \<Rightarrow> real \<Rightarrow> py_error + real" where
  "py_truediv a b = (if b = 0 then Inl ZeroDivisionError else Inr (a / b))"

text \<open>\<^verbatim>\<open>int(x)\<close> on a float truncates towards zero.\<close>

definition py_int :: "real \<Rightarrow> int" where
  "py_int x = (if 0 \<le> x then \<lfloor>x\<rfloor> else \<lceil>x\<rceil>)"

text \<open>
  \<^verbatim>\<open>sorted(xs, key=f, reverse=r)\<close>: a stable sort; with \<^verbatim>\<open>reverse=True\<close> the list is
  reversed, sorted stably and reversed again, so equal keys keep their original order.
\<close>

definition py_sorted :: "('a \<Rightarrow> real) \<Rightarrow> bool \<Rightarrow> 'a list \<Rightarrow> 'a list" where
  "py_sorted f reverse xs = (if reverse then rev (sort_key f (rev xs)) else sort_key f xs)"

section \<open>beat\_detection.py\<close>

subsection \<open>combine\_beats\_and\_onsets\<close>

text \<open>
  The loop over \<open>beat_times\<close>: a beat is appended unless some onset lies strictly within
  \<open>tolerance\<close> of it.
\<close>

fun append_uncovered :: "real list \<Rightarrow> real list \<Rightarrow> real \<Rightarrow> real list \<Rightarrow> real list" where
  "append_uncovered [] onset_times tolerance combined_times = combined_times"
| "append_uncovered (beat_time # beat_times) onset_times tolerance combined_times =
     (let has_nearby_onset = list_ex (\<lambda>onset. \<bar>beat_time - onset\<bar> < tolerance) onset_times
      in append_uncovered beat_times onset_times tolerance
           (if \<not> has_nearby_onset then combined_times @ [beat_time] else combined_times))"

definition combine_beats_and_onsets :: "real list \<Rightarrow> real list \<Rightarrow> real \<Rightarrow> real list" where
  "combine_beats_and_onsets beat_times onset_times tolerance =
     (let combined_times = append_uncovered beat_times onset_times tolerance onset_times
      in sort (remdups (map (\<lambda>t. py_round t 3) combined_times)))"

subsection \<open>normalize\_energies\<close>

text \<open>
  A drum event as the analysis writes it: the time and the three raw band energies are
  always there (the source indexes them), the normalised fields are there only after
  normalisation (the chart generator reads them with \<^verbatim>\<open>.get(key, 0)\<close>).
\<close>

record drum_event =
  time :: real
  kick_energy :: real
  snare_energy :: real
  hihat_energy :: real
  kick_energy_norm :: "real option"
  snare_energy_norm :: "real option"
  hihat_energy_norm :: "real option"

text \<open>
  The body of the normalising loop on one event: three divisions, each of which can raise,
  and the three normalised fields set.
\<close>

definition normalize_event :: "real \<Rightarrow> real \<Rightarrow> real \<Rightarrow> drum_event \<Rightarrow> py_error + drum_event" where
  "normalize_event max_kick max_snare max_hihat event =
     (case py_truediv (kick_energy event) max_kick of Inl err \<Rightarrow> Inl err | Inr kn \<Rightarrow>
     (case py_truediv (snare_energy event) max_snare of Inl err \<Rightarrow> Inl err | Inr sn \<Rightarrow>
     (case py_truediv (hihat_energy event) max_hihat of Inl err \<Rightarrow> Inl err | Inr hn \<Rightarrow>
        Inr (event\<lparr>kick_energy_norm := Some kn, snare_energy_norm := Some sn,
                   hihat_energy_norm := Some hn\<rparr>))))"

fun normalize_loop :: "real \<Rightarrow> real \<Rightarrow> real \<Rightarrow> drum_event list \<Rightarrow> py_error + drum_event list" where
  "normalize_loop max_kick max_snare max_hihat [] = Inr []"
| "normalize_loop max_kick max_snare max_hihat (event # drum_events) =
     (case normalize_event max_kick max_snare max_hihat event of
        Inl err \<Rightarrow> Inl err
      | Inr event' \<Rightarrow>
          (case normalize_loop max_kick max_snare max_hihat drum_events of
             Inl err \<Rightarrow> Inl err
           | Inr drum_events' \<Rightarrow> Inr (event' # drum_events')))"

definition normalize_energies :: "drum_event list \<Rightarrow> py_error + drum_event list" where
  "normalize_energies drum_events =
     (case py_max (map kick_energy drum_events) of Inl err \<Rightarrow> Inl err | Inr mk \<Rightarrow>
     (case py_max (map snare_energy drum_events) of Inl err \<Rightarrow> Inl err | Inr ms \<Rightarrow>
     (case py_max (map hihat_energy drum_events) of Inl err \<Rightarrow> Inl err | Inr mh \<Rightarrow>
        (let max_kick = py_or mk 1; max_snare = py_or ms 1; max_hihat = py_or mh 1
         in normalize_loop max_kick max_snare max_hihat drum_events))))"

text \<open>
  The dictionary \<^verbatim>\<open>analyze_drum_hits\<close> appends for a time point: the time and the three
  raw band energies, no normalised field yet.
\<close>

definition raw_event :: "real \<Rightarrow> real \<Rightarrow> real \<Rightarrow> real \<Rightarrow> drum_event" where
  "raw_event beat_time kick_e snare_e hihat_e =
     \<lparr>drum_event.time = beat_time, kick_energy = kick_e, snare_energy = snare_e,
      hihat_energy = hihat_e, kick_energy_norm = None, snare_energy_norm = None,
      hihat_energy_norm = None\<rparr>"

text \<open>An event with the three normalised fields set, as the normaliser leaves it.\<close>

definition with_norms :: "drum_event \<Rightarrow> real \<Rightarrow> real \<Rightarrow> real \<Rightarrow> drum_event" where
  "with_norms event kn sn hn =
     event\<lparr>kick_energy_norm := Some kn, snare_energy_norm := Some sn,
           hihat_energy_norm := Some hn\<rparr>"

section \<open>chart\_generator.py\<close>

text \<open>
  A note as the generator writes it. The \<^verbatim>\<open>type\<close> is the label the mapping gives, a
  string: the validator checks it against the three hand labels.
\<close>

record chart_note =
  time :: real
  note_type :: string
  velocity :: real

record metadata =
  generatedBy :: string
  noteCount :: nat
  leftCount :: nat
  rightCount :: nat
  bothCount :: nat
  averageInterval :: real

record chart =
  songId :: string
  difficulty :: string
  "notes" :: "chart_note list"
  metadata :: metadata

text \<open>The \<^verbatim>\<open>thresholds\<close> dictionary that \<^verbatim>\<open>generate_chart\<close> builds from the configuration.\<close>

record thresholds =
  kick :: real
  snare :: real
  hihat :: real

text \<open>
  The configuration dictionaries come from a YAML file: the difficulty configuration maps
  a key to a number and the mapping maps a drum category to a label. \<^verbatim>\<open>d[k]\<close> raises
  KeyError on a missing key; \<^verbatim>\<open>e.get(k, default)\<close> on an optional field does not.
\<close>

definition py_getitem :: "(string \<rightharpoonup> 'v) \<Rightarrow> string \<Rightarrow> py_error + 'v" where
  "py_getitem d k = (case d k of None \<Rightarrow> Inl (KeyError k) | Some v \<Rightarrow> Inr v)"

definition py_get :: "'v option \<Rightarrow> 'v \<Rightarrow> 'v" where
  "py_get field dflt = (case field of None \<Rightarrow> dflt | Some v \<Rightarrow> v)"

subsection \<open>generate\_chart\<close>

text \<open>
  A branch of the \<^verbatim>\<open>if\<close>/\<^verbatim>\<open>elif\<close> chain: \<^verbatim>\<open>note_type = mapping[name]\<close> and
  \<^verbatim>\<open>velocity = norm_energy\<close>.
\<close>

definition assign_note ::
  "(string \<rightharpoonup> string) \<Rightarrow> string \<Rightarrow> real \<Rightarrow> py_error + (string option \<times> real)" where
  "assign_note mapping name norm_energy =
     (case py_getitem mapping name of
        Inl err \<Rightarrow> Inl err
      | Inr label \<Rightarrow> Inr (Some label, norm_energy))"

text \<open>
  The chain itself: the pair of \<^verbatim>\<open>note_type\<close> (\<open>None\<close> at first) and \<^verbatim>\<open>velocity\<close> (0 at
  first) after it.
\<close>

definition classify_event ::
  "thresholds \<Rightarrow> (string \<rightharpoonup> string) \<Rightarrow> drum_event \<Rightarrow> py_error + (string option \<times> real)" where
  "classify_event thresholds mapping event =
     (let kick_norm = py_get (kick_energy_norm event) 0;
          snare_norm = py_get (snare_energy_norm event) 0;
          hihat_norm = py_get (hihat_energy_norm event) 0
      in if kick thresholds < kick_norm then assign_note mapping ''kick'' kick_norm
         else if snare thresholds < snare_norm then assign_note mapping ''snare'' snare_norm
         else if hihat thresholds < hihat_norm then assign_note mapping ''hihat'' hihat_norm
         else Inr (None, 0))"

text \<open>
  \<^verbatim>\<open>if note_type:\<close> holds for a non-empty string, not for \<open>None\<close> and not for the empty
  string.
\<close>

definition py_truthy :: "string \<Rightarrow> bool" where
  "py_truthy s = (s \<noteq> [])"

text \<open>
  \<^verbatim>\<open>notes.append({...}); last_time = time\<close> on the state \<open>(notes, last_time)\<close>: the note
  carries the rounded time and velocity, the state keeps the time as it was.
\<close>

definition append_note ::
  "chart_note list \<times> real \<Rightarrow> real \<Rightarrow> string \<Rightarrow> real \<Rightarrow> chart_note list \<times> real" where
  "append_note state t label vel =
     (fst state @ [\<lparr>time = py_round t 3, note_type = label, velocity = py_round vel 2\<rparr>], t)"

text \<open>One iteration of the loop.\<close>

definition generate_chart_step ::
  "thresholds \<Rightarrow> real \<Rightarrow> (string \<rightharpoonup> string) \<Rightarrow> chart_note list \<times> real \<Rightarrow> drum_event
     \<Rightarrow> py_error + (chart_note list \<times> real)" where
  "generate_chart_step thresholds min_interval mapping state event =
     (let t = drum_event.time event
      in if t - snd state < min_interval then Inr state
         else
           (case classify_event thresholds mapping event of
              Inl err \<Rightarrow> Inl err
            | Inr (ty, vel) \<Rightarrow>
                (case ty of
                   None \<Rightarrow> Inr state
                 | Some label \<Rightarrow>
                     if py_truthy label then Inr (append_note state t label vel)
                     else Inr state)))"

fun generate_chart_loop ::
  "thresholds \<Rightarrow> real \<Rightarrow> (string \<rightharpoonup> string) \<Rightarrow> chart_note list \<times> real \<Rightarrow> drum_event list
     \<Rightarrow> py_error + (chart_note list \<times> real)" where
  "generate_chart_loop thresholds min_interval mapping state [] = Inr state"
| "generate_chart_loop thresholds min_interval mapping state (event # drum_events) =
     (case generate_chart_step thresholds min_interval mapping state event of
        Inl err \<Rightarrow> Inl err
      | Inr state' \<Rightarrow> generate_chart_loop thresholds min_interval mapping state' drum_events)"

text \<open>\<^verbatim>\<open>[notes[i]["time"] - notes[i-1]["time"] for i in range(1, len(notes))]\<close>\<close>

definition intervals :: "chart_note list \<Rightarrow> real list" where
  "intervals ns = map (\<lambda>i. time (ns ! i) - time (ns ! (i - 1))) [1..<length ns]"

text \<open>\<^verbatim>\<open>np.mean\<close>, called on a non-empty list only.\<close>

definition np_mean :: "real list \<Rightarrow> real" where
  "np_mean xs = sum_list xs / real (length xs)"

definition count_type :: "string \<Rightarrow> chart_note list \<Rightarrow> nat" where
  "count_type label ns = length (filter (\<lambda>n. note_type n = label) ns)"

definition generate_chart ::
  "drum_event list \<Rightarrow> (string \<rightharpoonup> real) \<Rightarrow> (string \<rightharpoonup> string) \<Rightarrow> string \<Rightarrow> string
     \<Rightarrow> py_error + chart" where
  "generate_chart drum_events difficulty_config mapping song_id difficulty_name =
     (case py_getitem difficulty_config ''kick_threshold'' of Inl err \<Rightarrow> Inl err | Inr kt \<Rightarrow>
     (case py_getitem difficulty_config ''snare_threshold'' of Inl err \<Rightarrow> Inl err | Inr st \<Rightarrow>
     (case py_getitem difficulty_config ''hihat_threshold'' of Inl err \<Rightarrow> Inl err | Inr ht \<Rightarrow>
     (case py_getitem difficulty_config ''min_interval'' of Inl err \<Rightarrow> Inl err | Inr min_interval \<Rightarrow>
     (case generate_chart_loop \<lparr>kick = kt, snare = st, hihat = ht\<rparr> min_interval mapping
             ([], - 999) drum_events of
        Inl err \<Rightarrow> Inl err
      | Inr final \<Rightarrow>
          (let ns = fst final;
               left_count = count_type ''left'' ns;
               right_count = count_type ''right'' ns;
               both_count = count_type ''both'' ns
           in Inr \<lparr>songId = song_id, difficulty = difficulty_name, notes = ns,
                   metadata = \<lparr>generatedBy = ''algorithm'', noteCount = length ns,
                     leftCount = left_count, rightCount = right_count, bothCount = both_count,
                     averageInterval =
                       (if 1 < length ns then py_round (np_mean (intervals ns)) 3 else 0)\<rparr>\<rparr>))))))"

subsection \<open>validate\_chart\<close>

text \<open>
  The source appends a formatted message for each failed check. An issue here carries the
  data its message is formatted from: the note's index and the offending values.
\<close>

datatype issue =
    EmptyChart
  | NegativeTime nat real
  | BeyondDuration nat real real
  | VelocityOutOfRange nat real
  | InvalidType nat string
  | IntervalTooShort nat nat real

text \<open>The body of the loop over \<^verbatim>\<open>enumerate(notes)\<close>, on the list of issues so far.\<close>

definition check_note :: "real \<Rightarrow> chart_note list \<Rightarrow> nat \<times> chart_note \<Rightarrow> issue list \<Rightarrow> issue list" where
  "check_note audio_duration ns p issues0 =
     (let i = fst p; n = snd p;
          issues1 = (if time n < 0 then issues0 @ [NegativeTime i (time n)] else issues0);
          issues2 = (if audio_duration < time n
                     then issues1 @ [BeyondDuration i (time n) audio_duration] else issues1);
          issues3 = (if \<not> (0 \<le> velocity n \<and> velocity n \<le> 1)
                     then issues2 @ [VelocityOutOfRange i (velocity n)] else issues2);
          issues4 = (if note_type n \<notin> set [''left'', ''right'', ''both'']
                     then issues3 @ [InvalidType i (note_type n)] else issues3)
      in if 0 < i
         then (let interval = time n - time (ns ! (i - 1))
               in if interval < 15 / 100
                  then issues4 @ [IntervalTooShort (i - 1) i interval] else issues4)
         else issues4)"

definition validate_chart :: "chart \<Rightarrow> real \<Rightarrow> issue list" where
  "validate_chart c audio_duration =
     (let ns = notes c
      in if ns = [] then [EmptyChart]
         else fold (check_note audio_duration ns) (enumerate 0 ns) [])"

subsection \<open>apply\_density\_filter\<close>

definition apply_density_filter :: "chart_note list \<Rightarrow> real \<Rightarrow> chart_note list" where
  "apply_density_filter ns target_density =
     (if 1 \<le> target_density then ns
      else
        (let target_count = max 1 (py_int (real (length ns) * target_density));
             sorted_notes = py_sorted velocity True ns;
             selected_notes = take (nat target_count) sorted_notes;
             filtered_notes = py_sorted time False selected_notes
         in filtered_notes))"

section \<open>3\_generate\_chart.py\<close>

text \<open>
  \<^verbatim>\<open>generate_for_difficulty\<close> between reading its inputs and writing the chart: the chart
  that is persisted, and the issues the validator reports on it.
\<close>

definition generate_for_difficulty ::
  "drum_event list \<Rightarrow> real \<Rightarrow> (string \<rightharpoonup> real) \<Rightarrow> (string \<rightharpoonup> string) \<Rightarrow> string \<Rightarrow> string
     \<Rightarrow> py_error + (chart \<times> issue list)" where
  "generate_for_difficulty events audio_duration difficulty_config mapping song_id difficulty_name =
     (case generate_chart events difficulty_config mapping song_id difficulty_name of
        Inl err \<Rightarrow> Inl err
      | Inr c0 \<Rightarrow>
          (let note_density = py_get (difficulty_config ''note_density'') 1;
               c1 = (if note_density < 1
                     then (let c' = c0\<lparr>notes := apply_density_filter (notes c0) note_density\<rparr>
                           in c'\<lparr>metadata := (metadata c')\<lparr>noteCount := length (notes c')\<rparr>\<rparr>)
                     else c0);
               issues = validate_chart c1 audio_duration
           in Inr (c1, issues)))"

section \<open>Properties as the specification words them\<close>

text \<open>
  What the specification asks of one band after normalisation: every normalised value is
  there and lies in [0, 1]; each is the raw value over the band's maximum, or over 1 when
  that maximum is 0; when all raw values are 0 all normalised values are 0, and otherwise
  some event has the normalised value 1.
\<close>

definition band_normalized ::
  "(drum_event \<Rightarrow> real) \<Rightarrow> (drum_event \<Rightarrow> real option) \<Rightarrow> drum_event list \<Rightarrow> drum_event list
     \<Rightarrow> bool" where
  "band_normalized raw nrm events out =
     ((\<forall>e' \<in> set out. \<exists>v. nrm e' = Some v \<and> 0 \<le> v \<and> v \<le> 1)
      \<and> (\<forall>i < length events.
            nrm (out ! i) =
              Some (raw (events ! i) /
                 (if Max (raw ` set events) = 0 then 1 else Max (raw ` set events))))
      \<and> (if \<forall>e \<in> set events. raw e = 0
          then \<forall>e' \<in> set out. nrm e' = Some 0
          else \<exists>e' \<in> set out. nrm e' = Some 1))"

section \<open>Rounding\<close>

lemma round_half_even_of_int: "round_half_even (of_int k) = k"
  by (simp add: round_half_even_def)

lemma round_half_even_bounds: "\<bar>of_int (round_half_even x) - x\<bar> \<le> 1 / 2"
  unfolding round_half_even_def Let_def
  by (auto simp: abs_le_iff)

lemma py_round_idem: "py_round (py_round x n) n = py_round x n"
  by (simp add: py_round_def round_half_even_of_int)

lemma py_round_error: "\<bar>py_round x 3 - x\<bar> \<le> 1 / 2000"
proof -
  have "\<bar>of_int (round_half_even (x * 1000)) - x * 1000\<bar> \<le> 1 / 2"
    by (rule round_half_even_bounds)
  then show ?thesis
    by (simp add: py_round_def abs_le_iff field_simps)
qed

section \<open>The time-base fuser\<close>

lemma append_uncovered_filter:
  "append_uncovered bs os t acc =
     acc @ filter (\<lambda>b. \<not> list_ex (\<lambda>onset. \<bar>b - onset\<bar> < t) os) bs"
  by (induction bs arbitrary: acc) (simp_all add: Let_def)

lemma combine_set:
  "set (combine_beats_and_onsets bs os t) =
     (\<lambda>x. py_round x 3) ` (set os \<union> {b \<in> set bs. \<forall>onset \<in> set os. \<not> \<bar>b - onset\<bar> < t})"
  by (auto simp: combine_beats_and_onsets_def append_uncovered_filter list_ex_iff)

lemma combine_sorted: "sorted (combine_beats_and_onsets bs os t)"
  by (simp add: combine_beats_and_onsets_def)

lemma combine_distinct: "distinct (combine_beats_and_onsets bs os t)"
  by (simp add: combine_beats_and_onsets_def)

lemma combine_length:
  "length (combine_beats_and_onsets bs os t) \<le> length os + length bs"
proof -
  have "length (combine_beats_and_onsets bs os t)
          \<le> length (append_uncovered bs os t os)"
    unfolding combine_beats_and_onsets_def Let_def
    using length_remdups_leq [of "map (\<lambda>x. py_round x 3) (append_uncovered bs os t os)"]
    by simp
  also have "\<dots> \<le> length os + length bs"
    by (simp add: append_uncovered_filter)
  finally show ?thesis .
qed

lemma combine_rounded:
  "x \<in> set (combine_beats_and_onsets bs os t) \<Longrightarrow> py_round x 3 = x"
  by (auto simp: combine_set py_round_idem)

lemma combine_no_onsets:
  "combine_beats_and_onsets bs [] t = sort (remdups (map (\<lambda>x. py_round x 3) bs))"
  by (simp add: combine_beats_and_onsets_def append_uncovered_filter)

text \<open>
  Claim C5, as the code has it. The fused result holds every onset time rounded to the
  millisecond (so an onset time that is a whole number of milliseconds is in it as it is),
  it is no longer than the two inputs together, it is sorted ascending without duplicates,
  and it is exactly the set of rounded onset times and rounded beat times that no onset
  lies strictly within the tolerance of. No order of the inputs and no sign of the
  tolerance is needed.
\<close>

theorem fuse_superset_rounded:
  "(\<forall>onset \<in> set onset_times.
       py_round onset 3 \<in> set (combine_beats_and_onsets beat_times onset_times tolerance))
   \<and> (\<forall>onset \<in> set onset_times. py_round onset 3 = onset \<longrightarrow>
       onset \<in> set (combine_beats_and_onsets beat_times onset_times tolerance))
   \<and> length (combine_beats_and_onsets beat_times onset_times tolerance)
        \<le> length onset_times + length beat_times
   \<and> sorted (combine_beats_and_onsets beat_times onset_times tolerance)
   \<and> distinct (combine_beats_and_onsets beat_times onset_times tolerance)
   \<and> set (combine_beats_and_onsets beat_times onset_times tolerance) =
       (\<lambda>x. py_round x 3) `
         (set onset_times \<union>
          {b \<in> set beat_times. \<forall>onset \<in> set onset_times. \<not> \<bar>b - onset\<bar> < tolerance})"
proof -
  have "\<forall>onset \<in> set onset_times.
       py_round onset 3 \<in> set (combine_beats_and_onsets beat_times onset_times tolerance)"
    by (simp add: combine_set)
  moreover from this have "\<forall>onset \<in> set onset_times. py_round onset 3 = onset \<longrightarrow>
       onset \<in> set (combine_beats_and_onsets beat_times onset_times tolerance)"
    by metis
  ultimately show ?thesis
    using combine_length combine_sorted combine_distinct combine_set by blast
qed

theorem fuse_superset_rounded_witness:
  "py_round (4 / 10000) 3 \<in> set (combine_beats_and_onsets [1 / 2, 1, 3 / 2] [4 / 10000, 1049 / 1000] (1 / 10))
   \<and> py_round (1049 / 1000) 3 = 1049 / 1000
   \<and> 1049 / 1000 \<in> set (combine_beats_and_onsets [1 / 2, 1, 3 / 2] [4 / 10000, 1049 / 1000] (1 / 10))
   \<and> combine_beats_and_onsets [1 / 2, 1, 3 / 2] [4 / 10000, 1049 / 1000] (1 / 10)
       = [0, 1 / 2, 1049 / 1000, 3 / 2]"
  using fuse_superset_rounded [of "[4 / 10000, 1049 / 1000]" "[1 / 2, 1, 3 / 2]" "1 / 10"]
  by (simp add: combine_beats_and_onsets_def py_round_def round_half_even_def)

text \<open>
  Claim C5, as the specification words it, fails: the onset time 0.0004 s is not in the
  fused result of no beats and that one onset, which is [0.0].
\<close>

theorem fuse_onset_counterexample:
  "4 / 10000 \<in> set [4 / 10000 :: real]
   \<and> 4 / 10000 \<notin> set (combine_beats_and_onsets [] [4 / 10000] (1 / 10))"
  by (simp add: combine_beats_and_onsets_def py_round_def round_half_even_def)

text \<open>
  Claim C8. Fusing a fused result again with no onsets gives it back, for every tolerance
  and all inputs; and with no onsets the result is the beat times rounded to the
  millisecond, without duplicates, ascending.
\<close>

theorem fuse_idempotent:
  "combine_beats_and_onsets (combine_beats_and_onsets B O' t) [] t = combine_beats_and_onsets B O' t
   \<and> combine_beats_and_onsets B [] t = sorted_list_of_set ((\<lambda>x. py_round x 3) ` set B)"
proof
  let ?R = "combine_beats_and_onsets B O' t"
  have "map (\<lambda>x. py_round x 3) ?R = ?R"
    by (rule map_idI) (rule combine_rounded)
  then have "combine_beats_and_onsets ?R [] t = sort (remdups ?R)"
    by (simp add: combine_no_onsets)
  also have "\<dots> = ?R"
    by (simp add: combine_distinct combine_sorted sorted_sort_id)
  finally show "combine_beats_and_onsets ?R [] t = ?R" .
next
  show "combine_beats_and_onsets B [] t = sorted_list_of_set ((\<lambda>x. py_round x 3) ` set B)"
    by (simp add: combine_no_onsets sorted_list_of_set_sort_remdups [symmetric])
qed

theorem fuse_idempotent_witness:
  "combine_beats_and_onsets
     (combine_beats_and_onsets [1 / 2, 1, 3 / 2] [4 / 10000, 1049 / 1000] (1 / 10)) [] (1 / 10)
     = [0, 1 / 2, 1049 / 1000, 3 / 2]
   \<and> combine_beats_and_onsets [3 / 2, 15 / 10000, 1 / 2, 3 / 2] [] 0 = [2 / 1000, 1 / 2, 3 / 2]"
  using fuse_idempotent [of "[1 / 2, 1, 3 / 2]" "[4 / 10000, 1049 / 1000]" "1 / 10"]
  by (simp add: combine_beats_and_onsets_def py_round_def round_half_even_def)

section \<open>The energy normaliser\<close>

lemma py_max_Max: "xs \<noteq> [] \<Longrightarrow> py_max xs = Inr (Max (set xs))"
proof (cases xs)
  case Nil
  then show "xs \<noteq> [] \<Longrightarrow> ?thesis" by simp
next
  case (Cons x ys)
  have "(\<lambda>item m. if m < item then item else m) = (max :: real \<Rightarrow> real \<Rightarrow> real)"
    by (intro ext) (simp add: max_def)
  then show ?thesis
    using Cons Max.set_eq_fold [of x ys] by simp
qed

lemma py_or_nonzero: "py_or m 1 \<noteq> 0"
  by (simp add: py_or_def)

lemma normalize_event_nonzero:
  assumes "mk \<noteq> 0" "ms \<noteq> 0" "mh \<noteq> 0"
  shows "normalize_event mk ms mh e =
           Inr (e\<lparr>kick_energy_norm := Some (kick_energy e / mk),
                  snare_energy_norm := Some (snare_energy e / ms),
                  hihat_energy_norm := Some (hihat_energy e / mh)\<rparr>)"
  using assms by (simp add: normalize_event_def py_truediv_def)

lemma normalize_event_zero:
  assumes "mk = 0 \<or> ms = 0 \<or> mh = 0"
  shows "normalize_event mk ms mh e = Inl ZeroDivisionError"
  using assms by (auto simp: normalize_event_def py_truediv_def)

lemma normalize_loop_nonzero:
  assumes "mk \<noteq> 0" "ms \<noteq> 0" "mh \<noteq> 0"
  shows "normalize_loop mk ms mh es =
           Inr (map (\<lambda>e. e\<lparr>kick_energy_norm := Some (kick_energy e / mk),
                             snare_energy_norm := Some (snare_energy e / ms),
                             hihat_energy_norm := Some (hihat_energy e / mh)\<rparr>) es)"
  by (induction es) (simp_all add: normalize_event_nonzero [OF assms])

lemma normalize_loop_zero:
  assumes "es \<noteq> []" and "mk = 0 \<or> ms = 0 \<or> mh = 0"
  shows "normalize_loop mk ms mh es = Inl ZeroDivisionError"
  using assms by (cases es) (simp_all add: normalize_event_zero)

lemma normalize_energies_loop:
  assumes "events \<noteq> []"
  shows "normalize_energies events =
           normalize_loop (py_or (Max (kick_energy ` set events)) 1)
             (py_or (Max (snare_energy ` set events)) 1)
             (py_or (Max (hihat_energy ` set events)) 1) events"
  using assms by (simp add: normalize_energies_def py_max_Max)

lemma normalize_energies_nonempty:
  assumes "events \<noteq> []"
  shows "normalize_energies events =
     Inr (map (\<lambda>event. event
            \<lparr>kick_energy_norm := Some (kick_energy event / py_or (Max (kick_energy ` set events)) 1),
             snare_energy_norm := Some (snare_energy event / py_or (Max (snare_energy ` set events)) 1),
             hihat_energy_norm := Some (hihat_energy event / py_or (Max (hihat_energy ` set events)) 1)\<rparr>)
          events)"
  using assms
  by (simp add: normalize_energies_loop normalize_loop_nonzero py_or_nonzero)

lemma band_normalizedI:
  assumes ne: "events \<noteq> []"
    and nonneg: "\<forall>e \<in> set events. 0 \<le> raw e"
    and len: "length out = length events"
    and out: "\<forall>i < length events. nrm (out ! i) = Some (raw (events ! i) / py_or (Max (raw ` set events)) 1)"
  shows "band_normalized raw nrm events out"
proof -
  let ?M = "Max (raw ` set events)"
  let ?d = "py_or ?M 1"
  have fin: "finite (raw ` set events)" and nemp: "raw ` set events \<noteq> {}"
    using ne by simp_all
  have le: "raw e \<le> ?M" if "e \<in> set events" for e
    using that fin by simp
  have M0: "0 \<le> ?M"
  proof -
    obtain e where "e \<in> set events" using ne by (cases events) auto
    then have "0 \<le> raw e" and "raw e \<le> ?M" using nonneg le [of e] by auto
    then show ?thesis by linarith
  qed
  have dpos: "0 < ?d"
    using M0 by (simp add: py_or_def)
  have d_eq: "?d = (if ?M = 0 then 1 else ?M)"
    by (simp add: py_or_def)
  have bounds: "0 \<le> raw e / ?d \<and> raw e / ?d \<le> 1" if "e \<in> set events" for e
  proof -
    have "raw e \<le> ?d" using le [OF that] M0 by (simp add: py_or_def)
    then show ?thesis using nonneg that dpos by simp
  qed
  have outs: "\<exists>i < length events. e' = out ! i" if "e' \<in> set out" for e'
    using that len by (metis in_set_conv_nth)
  have c1: "\<forall>e' \<in> set out. \<exists>v. nrm e' = Some v \<and> 0 \<le> v \<and> v \<le> 1"
  proof
    fix e' assume "e' \<in> set out"
    then obtain i where i: "i < length events" "e' = out ! i" using outs by blast
    then show "\<exists>v. nrm e' = Some v \<and> 0 \<le> v \<and> v \<le> 1"
      using out bounds [of "events ! i"] by simp
  qed
  have c2: "\<forall>i < length events. nrm (out ! i) =
              Some (raw (events ! i) / (if ?M = 0 then 1 else ?M))"
    using out d_eq by simp
  have c3: "if \<forall>e \<in> set events. raw e = 0
          then \<forall>e' \<in> set out. nrm e' = Some 0
          else \<exists>e' \<in> set out. nrm e' = Some 1"
  proof (cases "\<forall>e \<in> set events. raw e = 0")
    case True
    have "nrm e' = Some 0" if mem: "e' \<in> set out" for e'
    proof -
      obtain i where i: "i < length events" "e' = out ! i" using outs [OF mem] by blast
      then show ?thesis using out True by simp
    qed
    then show ?thesis using True by simp
  next
    case False
    then obtain e where e: "e \<in> set events" "raw e \<noteq> 0" by blast
    then have "0 < raw e" using nonneg by force
    then have Mpos: "0 < ?M" using le [OF e(1)] by linarith
    have "?M \<in> raw ` set events" using fin nemp by (rule Max_in)
    then obtain i where i: "i < length events" "raw (events ! i) = ?M"
      by (metis (no_types, lifting) imageE in_set_conv_nth)
    then have "nrm (out ! i) = Some 1"
      using out Mpos by (simp add: py_or_def)
    moreover have "out ! i \<in> set out" using i len by simp
    ultimately show ?thesis using False by auto
  qed
  show ?thesis
    unfolding band_normalized_def using c1 c2 c3 by blast
qed

text \<open>
  Claim C7. Division raises ZeroDivisionError on a zero divisor, and the normalising loop
  with a zero divisor for any band raises it on the first event. On a non-empty event list
  the normaliser raises nothing: it returns a list of the same length, because it runs the
  loop with each band's maximum, or with 1 in place of a maximum that is 0. Every
  normalised energy is the raw energy over that divisor. For each band on its own whose
  raw energies are not negative: every normalised energy lies in [0, 1]; if all raw
  energies of the band are 0 all normalised ones are 0, otherwise some event has exactly 1.
\<close>

theorem normalize_energies_bounds:
  assumes "drum_events \<noteq> []"
  shows "\<exists>out. normalize_energies drum_events = Inr out
           \<and> normalize_energies drum_events =
               normalize_loop
                 (if Max (kick_energy ` set drum_events) = 0 then 1
                  else Max (kick_energy ` set drum_events))
                 (if Max (snare_energy ` set drum_events) = 0 then 1
                  else Max (snare_energy ` set drum_events))
                 (if Max (hihat_energy ` set drum_events) = 0 then 1
                  else Max (hihat_energy ` set drum_events))
                 drum_events
           \<and> (mk = 0 \<or> ms = 0 \<or> mh = 0 \<longrightarrow>
                 normalize_loop mk ms mh drum_events = Inl ZeroDivisionError)
           \<and> length out = length drum_events
           \<and> (\<forall>i < length drum_events.
                 kick_energy_norm (out ! i) =
                   Some (kick_energy (drum_events ! i) /
                     (if Max (kick_energy ` set drum_events) = 0 then 1
                      else Max (kick_energy ` set drum_events)))
                 \<and> snare_energy_norm (out ! i) =
                   Some (snare_energy (drum_events ! i) /
                     (if Max (snare_energy ` set drum_events) = 0 then 1
                      else Max (snare_energy ` set drum_events)))
                 \<and> hihat_energy_norm (out ! i) =
                   Some (hihat_energy (drum_events ! i) /
                     (if Max (hihat_energy ` set drum_events) = 0 then 1
                      else Max (hihat_energy ` set drum_events))))
           \<and> ((\<forall>e \<in> set drum_events. 0 \<le> kick_energy e) \<longrightarrow>
                 band_normalized kick_energy kick_energy_norm drum_events out)
           \<and> ((\<forall>e \<in> set drum_events. 0 \<le> snare_energy e) \<longrightarrow>
                 band_normalized snare_energy snare_energy_norm drum_events out)
           \<and> ((\<forall>e \<in> set drum_events. 0 \<le> hihat_energy e) \<longrightarrow>
                 band_normalized hihat_energy hihat_energy_norm drum_events out)"
proof -
  let ?out = "map (\<lambda>event. event
            \<lparr>kick_energy_norm := Some (kick_energy event / py_or (Max (kick_energy ` set drum_events)) 1),
             snare_energy_norm := Some (snare_energy event / py_or (Max (snare_energy ` set drum_events)) 1),
             hihat_energy_norm := Some (hihat_energy event / py_or (Max (hihat_energy ` set drum_events)) 1)\<rparr>)
          drum_events"
  have eq: "normalize_energies drum_events = Inr ?out"
    using assms by (rule normalize_energies_nonempty)
  have lp: "normalize_energies drum_events =
               normalize_loop
                 (if Max (kick_energy ` set drum_events) = 0 then 1
                  else Max (kick_energy ` set drum_events))
                 (if Max (snare_energy ` set drum_events) = 0 then 1
                  else Max (snare_energy ` set drum_events))
                 (if Max (hihat_energy ` set drum_events) = 0 then 1
                  else Max (hihat_energy ` set drum_events))
                 drum_events"
    using normalize_energies_loop [OF assms] by (simp only: py_or_def)
  have zero: "mk = 0 \<or> ms = 0 \<or> mh = 0 \<longrightarrow>
                 normalize_loop mk ms mh drum_events = Inl ZeroDivisionError"
    using normalize_loop_zero [OF assms] by blast
  have len: "length ?out = length drum_events" by simp
  have ix: "\<forall>i < length drum_events.
                 kick_energy_norm (?out ! i) =
                   Some (kick_energy (drum_events ! i) /
                     (if Max (kick_energy ` set drum_events) = 0 then 1
                      else Max (kick_energy ` set drum_events)))
                 \<and> snare_energy_norm (?out ! i) =
                   Some (snare_energy (drum_events ! i) /
                     (if Max (snare_energy ` set drum_events) = 0 then 1
                      else Max (snare_energy ` set drum_events)))
                 \<and> hihat_energy_norm (?out ! i) =
                   Some (hihat_energy (drum_events ! i) /
                     (if Max (hihat_energy ` set drum_events) = 0 then 1
                      else Max (hihat_energy ` set drum_events)))"
    by (simp add: py_or_def)
  have k: "(\<forall>e \<in> set drum_events. 0 \<le> kick_energy e) \<longrightarrow>
             band_normalized kick_energy kick_energy_norm drum_events ?out"
  proof
    assume "\<forall>e \<in> set drum_events. 0 \<le> kick_energy e"
    with assms show "band_normalized kick_energy kick_energy_norm drum_events ?out"
      using len by (rule band_normalizedI) simp
  qed
  have s: "(\<forall>e \<in> set drum_events. 0 \<le> snare_energy e) \<longrightarrow>
             band_normalized snare_energy snare_energy_norm drum_events ?out"
  proof
    assume "\<forall>e \<in> set drum_events. 0 \<le> snare_energy e"
    with assms show "band_normalized snare_energy snare_energy_norm drum_events ?out"
      using len by (rule band_normalizedI) simp
  qed
  have h: "(\<forall>e \<in> set drum_events. 0 \<le> hihat_energy e) \<longrightarrow>
             band_normalized hihat_energy hihat_energy_norm drum_events ?out"
  proof
    assume "\<forall>e \<in> set drum_events. 0 \<le> hihat_energy e"
    with assms show "band_normalized hihat_energy hihat_energy_norm drum_events ?out"
      using len by (rule band_normalizedI) simp
  qed
  show ?thesis
    by (rule exI [of _ ?out]) (intro conjI eq lp zero len ix k s h)
qed

theorem normalize_energies_bounds_witness:
  "[raw_event 0 2 0 1, raw_event 1 4 0 3] \<noteq> []
   \<and> 0 \<le> kick_energy (raw_event 0 2 0 1) \<and> 0 \<le> kick_energy (raw_event 1 4 0 3)
   \<and> 0 \<le> snare_energy (raw_event 0 2 0 1) \<and> 0 \<le> snare_energy (raw_event 1 4 0 3)
   \<and> 0 \<le> hihat_energy (raw_event 0 2 0 1) \<and> 0 \<le> hihat_energy (raw_event 1 4 0 3)
   \<and> normalize_energies [raw_event 0 2 0 1, raw_event 1 4 0 3] =
       Inr [raw_event 0 2 0 1
              \<lparr>kick_energy_norm := Some (1 / 2), snare_energy_norm := Some 0,
               hihat_energy_norm := Some (1 / 3)\<rparr>,
            raw_event 1 4 0 3
              \<lparr>kick_energy_norm := Some 1, snare_energy_norm := Some 0,
               hihat_energy_norm := Some 1\<rparr>]
   \<and> normalize_loop 4 0 3 [raw_event 0 2 0 1, raw_event 1 4 0 3] = Inl ZeroDivisionError
   \<and> normalize_energies [raw_event 0 0 0 0] =
       Inr [raw_event 0 0 0 0
              \<lparr>kick_energy_norm := Some 0, snare_energy_norm := Some 0,
               hihat_energy_norm := Some 0\<rparr>]
   \<and> normalize_energies [raw_event 0 0 0 0, raw_event 1 (- 2) 0 0] =
       Inr [raw_event 0 0 0 0
              \<lparr>kick_energy_norm := Some 0, snare_energy_norm := Some 0,
               hihat_energy_norm := Some 0\<rparr>,
            raw_event 1 (- 2) 0 0
              \<lparr>kick_energy_norm := Some (- 2), snare_energy_norm := Some 0,
               hihat_energy_norm := Some 0\<rparr>]"
proof -
  have ne: "[raw_event 0 2 0 1, raw_event 1 4 0 3] \<noteq> []" by simp
  have zero: "normalize_loop 4 0 3 [raw_event 0 2 0 1, raw_event 1 4 0 3] = Inl ZeroDivisionError"
    using normalize_energies_bounds [OF ne, of 4 0 3] by blast
  have ev: "normalize_energies [raw_event 0 2 0 1, raw_event 1 4 0 3] =
       Inr [raw_event 0 2 0 1
              \<lparr>kick_energy_norm := Some (1 / 2), snare_energy_norm := Some 0,
               hihat_energy_norm := Some (1 / 3)\<rparr>,
            raw_event 1 4 0 3
              \<lparr>kick_energy_norm := Some 1, snare_energy_norm := Some 0,
               hihat_energy_norm := Some 1\<rparr>]"
    by (simp add: normalize_energies_def normalize_event_def py_truediv_def raw_event_def
        py_or_def)
  have silent: "normalize_energies [raw_event 0 0 0 0] =
       Inr [raw_event 0 0 0 0
              \<lparr>kick_energy_norm := Some 0, snare_energy_norm := Some 0,
               hihat_energy_norm := Some 0\<rparr>]"
    by (simp add: normalize_energies_def normalize_event_def py_truediv_def raw_event_def
        py_or_def)
  have neg: "normalize_energies [raw_event 0 0 0 0, raw_event 1 (- 2) 0 0] =
       Inr [raw_event 0 0 0 0
              \<lparr>kick_energy_norm := Some 0, snare_energy_norm := Some 0,
               hihat_energy_norm := Some 0\<rparr>,
            raw_event 1 (- 2) 0 0
              \<lparr>kick_energy_norm := Some (- 2), snare_energy_norm := Some 0,
               hihat_energy_norm := Some 0\<rparr>]"
    by (simp add: normalize_energies_def normalize_event_def py_truediv_def raw_event_def
        py_or_def)
  show ?thesis
    using ne zero ev silent neg by (simp add: raw_event_def)
qed

text \<open>
  Claim C4 does not hold of the code: on the empty event list \<^verbatim>\<open>max\<close> is called on an
  empty sequence and raises ValueError, so the normaliser returns no list.
\<close>

theorem normalize_energies_empty: "normalize_energies [] = Inl ValueError"
  by (simp add: normalize_energies_def)

section \<open>The event classifier\<close>

lemma step_gate:
  "drum_event.time e - last_time < mi \<Longrightarrow> generate_chart_step th mi mp (ns, last_time) e = Inr (ns, last_time)"
  by (simp add: generate_chart_step_def)

lemma step_branch:
  assumes "\<not> drum_event.time e - snd st < mi" and "classify_event th mp e = assign_note mp name v"
  shows "generate_chart_step th mi mp st e =
           (case mp name of
              None \<Rightarrow> Inl (KeyError name)
            | Some label \<Rightarrow>
                if label = [] then Inr st else Inr (append_note st (drum_event.time e) label v))"
  using assms
  by (simp add: generate_chart_step_def Let_def assign_note_def py_getitem_def py_truthy_def
      split: option.splits)

lemma step_none:
  assumes "classify_event th mp e = Inr (None, 0)"
  shows "generate_chart_step th mi mp st e = Inr st"
  using assms by (simp add: generate_chart_step_def Let_def)

text \<open>
  Claim C1. One iteration of the classifier on the state \<open>(ns, last_time)\<close>, by cases in
  the fixed priority kick, snare, hihat, each comparison strict. An event whose kick
  energy is above the kick threshold (whatever its snare and hihat energies, so also when
  all three are above their thresholds) is skipped when it comes less than the minimum
  interval after the last accepted time, and otherwise emits the note labelled by the
  mapping of kick with the rounded kick energy as velocity, and the last accepted time
  becomes the event's time; a mapping without a kick entry raises KeyError and an empty
  label emits nothing. Snare is looked at only when kick is not above its threshold, hihat
  only when neither kick nor snare is. An event above no threshold emits no note and
  leaves the last accepted time as it was.
\<close>

theorem classification_priority:
  "(kick th < py_get (kick_energy_norm e) 0 \<longrightarrow>
      generate_chart_step th mi mp (ns, last_time) e =
        (if drum_event.time e - last_time < mi then Inr (ns, last_time)
         else case mp ''kick'' of
                None \<Rightarrow> Inl (KeyError ''kick'')
              | Some label \<Rightarrow>
                  if label = [] then Inr (ns, last_time)
                  else Inr (ns @ [\<lparr>time = py_round (drum_event.time e) 3, note_type = label,
                                   velocity = py_round (py_get (kick_energy_norm e) 0) 2\<rparr>],
                            drum_event.time e)))
   \<and> (\<not> kick th < py_get (kick_energy_norm e) 0
        \<and> snare th < py_get (snare_energy_norm e) 0 \<longrightarrow>
      generate_chart_step th mi mp (ns, last_time) e =
        (if drum_event.time e - last_time < mi then Inr (ns, last_time)
         else case mp ''snare'' of
                None \<Rightarrow> Inl (KeyError ''snare'')
              | Some label \<Rightarrow>
                  if label = [] then Inr (ns, last_time)
                  else Inr (ns @ [\<lparr>time = py_round (drum_event.time e) 3, note_type = label,
                                   velocity = py_round (py_get (snare_energy_norm e) 0) 2\<rparr>],
                            drum_event.time e)))
   \<and> (\<not> kick th < py_get (kick_energy_norm e) 0
        \<and> \<not> snare th < py_get (snare_energy_norm e) 0
        \<and> hihat th < py_get (hihat_energy_norm e) 0 \<longrightarrow>
      generate_chart_step th mi mp (ns, last_time) e =
        (if drum_event.time e - last_time < mi then Inr (ns, last_time)
         else case mp ''hihat'' of
                None \<Rightarrow> Inl (KeyError ''hihat'')
              | Some label \<Rightarrow>
                  if label = [] then Inr (ns, last_time)
                  else Inr (ns @ [\<lparr>time = py_round (drum_event.time e) 3, note_type = label,
                                   velocity = py_round (py_get (hihat_energy_norm e) 0) 2\<rparr>],
                            drum_event.time e)))
   \<and> (\<not> kick th < py_get (kick_energy_norm e) 0
        \<and> \<not> snare th < py_get (snare_energy_norm e) 0
        \<and> \<not> hihat th < py_get (hihat_energy_norm e) 0 \<longrightarrow>
      generate_chart_step th mi mp (ns, last_time) e = Inr (ns, last_time))"
proof (intro conjI impI)
  assume k: "kick th < py_get (kick_energy_norm e) 0"
  then have c: "classify_event th mp e = assign_note mp ''kick'' (py_get (kick_energy_norm e) 0)"
    by (simp add: classify_event_def)
  show "generate_chart_step th mi mp (ns, last_time) e =
        (if drum_event.time e - last_time < mi then Inr (ns, last_time)
         else case mp ''kick'' of
                None \<Rightarrow> Inl (KeyError ''kick'')
              | Some label \<Rightarrow>
                  if label = [] then Inr (ns, last_time)
                  else Inr (ns @ [\<lparr>time = py_round (drum_event.time e) 3, note_type = label,
                                   velocity = py_round (py_get (kick_energy_norm e) 0) 2\<rparr>],
                            drum_event.time e))"
  proof (cases "drum_event.time e - last_time < mi")
    case True
    then show ?thesis by (simp add: step_gate)
  next
    case False
    then show ?thesis
      using step_branch [of e "(ns, last_time)" mi th mp "''kick''", OF _ c]
      by (simp add: append_note_def split: option.splits)
  qed
next
  assume "\<not> kick th < py_get (kick_energy_norm e) 0 \<and> snare th < py_get (snare_energy_norm e) 0"
  then have c: "classify_event th mp e = assign_note mp ''snare'' (py_get (snare_energy_norm e) 0)"
    by (simp add: classify_event_def)
  show "generate_chart_step th mi mp (ns, last_time) e =
        (if drum_event.time e - last_time < mi then Inr (ns, last_time)
         else case mp ''snare'' of
                None \<Rightarrow> Inl (KeyError ''snare'')
              | Some label \<Rightarrow>
                  if label = [] then Inr (ns, last_time)
                  else Inr (ns @ [\<lparr>time = py_round (drum_event.time e) 3, note_type = label,
                                   velocity = py_round (py_get (snare_energy_norm e) 0) 2\<rparr>],
                            drum_event.time e))"
  proof (cases "drum_event.time e - last_time < mi")
    case True
    then show ?thesis by (simp add: step_gate)
  next
    case False
    then show ?thesis
      using step_branch [of e "(ns, last_time)" mi th mp "''snare''", OF _ c]
      by (simp add: append_note_def split: option.splits)
  qed
next
  assume "\<not> kick th < py_get (kick_energy_norm e) 0
        \<and> \<not> snare th < py_get (snare_energy_norm e) 0
        \<and> hihat th < py_get (hihat_energy_norm e) 0"
  then have c: "classify_event th mp e = assign_note mp ''hihat'' (py_get (hihat_energy_norm e) 0)"
    by (simp add: classify_event_def)
  show "generate_chart_step th mi mp (ns, last_time) e =
        (if drum_event.time e - last_time < mi then Inr (ns, last_time)
         else case mp ''hihat'' of
                None \<Rightarrow> Inl (KeyError ''hihat'')
              | Some label \<Rightarrow>
                  if label = [] then Inr (ns, last_time)
                  else Inr (ns @ [\<lparr>time = py_round (drum_event.time e) 3, note_type = label,
                                   velocity = py_round (py_get (hihat_energy_norm e) 0) 2\<rparr>],
                            drum_event.time e))"
  proof (cases "drum_event.time e - last_time < mi")
    case True
    then show ?thesis by (simp add: step_gate)
  next
    case False
    then show ?thesis
      using step_branch [of e "(ns, last_time)" mi th mp "''hihat''", OF _ c]
      by (simp add: append_note_def split: option.splits)
  qed
next
  assume "\<not> kick th < py_get (kick_energy_norm e) 0
        \<and> \<not> snare th < py_get (snare_energy_norm e) 0
        \<and> \<not> hihat th < py_get (hihat_energy_norm e) 0"
  then have "classify_event th mp e = Inr (None, 0)"
    by (simp add: classify_event_def)
  then show "generate_chart_step th mi mp (ns, last_time) e = Inr (ns, last_time)"
    by (rule step_none)
qed

theorem classification_priority_witness:
  "kick \<lparr>kick = 1 / 2, snare = 1 / 2, hihat = 1 / 2\<rparr>
     < py_get (kick_energy_norm (with_norms (raw_event 0 5 4 3) (9 / 10) (8 / 10) (7 / 10))) 0
   \<and> generate_chart_step \<lparr>kick = 1 / 2, snare = 1 / 2, hihat = 1 / 2\<rparr> (1 / 10)
         [''kick'' \<mapsto> ''both'', ''snare'' \<mapsto> ''right'', ''hihat'' \<mapsto> ''left'']
         ([], - 999) (with_norms (raw_event 0 5 4 3) (9 / 10) (8 / 10) (7 / 10))
       = Inr ([\<lparr>time = 0, note_type = ''both'', velocity = 9 / 10\<rparr>], 0)
   \<and> \<not> kick \<lparr>kick = 1 / 2, snare = 1 / 2, hihat = 1 / 2\<rparr>
         < py_get (kick_energy_norm (with_norms (raw_event 0 5 4 3) (1 / 2) (8 / 10) (7 / 10))) 0
   \<and> generate_chart_step \<lparr>kick = 1 / 2, snare = 1 / 2, hihat = 1 / 2\<rparr> (1 / 10)
         [''kick'' \<mapsto> ''both'', ''snare'' \<mapsto> ''right'', ''hihat'' \<mapsto> ''left'']
         ([], - 999) (with_norms (raw_event 0 5 4 3) (1 / 2) (8 / 10) (7 / 10))
       = Inr ([\<lparr>time = 0, note_type = ''right'', velocity = 8 / 10\<rparr>], 0)
   \<and> generate_chart_step \<lparr>kick = 1 / 2, snare = 1 / 2, hihat = 1 / 2\<rparr> (1 / 10)
         [''kick'' \<mapsto> ''both'', ''snare'' \<mapsto> ''right'', ''hihat'' \<mapsto> ''left'']
         ([], - 999) (with_norms (raw_event 0 5 4 3) (1 / 2) (1 / 2) (7 / 10))
       = Inr ([\<lparr>time = 0, note_type = ''left'', velocity = 7 / 10\<rparr>], 0)
   \<and> generate_chart_step \<lparr>kick = 1 / 2, snare = 1 / 2, hihat = 1 / 2\<rparr> (1 / 10)
         [''kick'' \<mapsto> ''both'', ''snare'' \<mapsto> ''right'', ''hihat'' \<mapsto> ''left'']
         ([], - 999) (with_norms (raw_event 0 5 4 3) (1 / 2) (1 / 2) (1 / 2))
       = Inr ([], - 999)"
  using
    classification_priority [of "\<lparr>kick = 1 / 2, snare = 1 / 2, hihat = 1 / 2\<rparr>"
      "with_norms (raw_event 0 5 4 3) (9 / 10) (8 / 10) (7 / 10)" "1 / 10"
      "[''kick'' \<mapsto> ''both'', ''snare'' \<mapsto> ''right'', ''hihat'' \<mapsto> ''left'']" "[]" "- 999"]
    classification_priority [of "\<lparr>kick = 1 / 2, snare = 1 / 2, hihat = 1 / 2\<rparr>"
      "with_norms (raw_event 0 5 4 3) (1 / 2) (8 / 10) (7 / 10)" "1 / 10"
      "[''kick'' \<mapsto> ''both'', ''snare'' \<mapsto> ''right'', ''hihat'' \<mapsto> ''left'']" "[]" "- 999"]
    classification_priority [of "\<lparr>kick = 1 / 2, snare = 1 / 2, hihat = 1 / 2\<rparr>"
      "with_norms (raw_event 0 5 4 3) (1 / 2) (1 / 2) (7 / 10)" "1 / 10"
      "[''kick'' \<mapsto> ''both'', ''snare'' \<mapsto> ''right'', ''hihat'' \<mapsto> ''left'']" "[]" "- 999"]
    classification_priority [of "\<lparr>kick = 1 / 2, snare = 1 / 2, hihat = 1 / 2\<rparr>"
      "with_norms (raw_event 0 5 4 3) (1 / 2) (1 / 2) (1 / 2)" "1 / 10"
      "[''kick'' \<mapsto> ''both'', ''snare'' \<mapsto> ''right'', ''hihat'' \<mapsto> ''left'']" "[]" "- 999"]
  by (simp add: with_norms_def raw_event_def py_get_def py_round_def round_half_even_def)

lemma step_all_missing:
  assumes "kick_energy_norm e = None" "snare_energy_norm e = None" "hihat_energy_norm e = None"
    and "0 \<le> kick th" "0 \<le> snare th" "0 \<le> hihat th"
  shows "generate_chart_step th mi mp st e = Inr st"
proof -
  have "classify_event th mp e = Inr (None, 0)"
    using assms by (simp add: classify_event_def py_get_def)
  then show ?thesis by (rule step_none)
qed

lemma loop_all_missing:
  assumes "\<forall>e \<in> set evs. kick_energy_norm e = None \<and> snare_energy_norm e = None
              \<and> hihat_energy_norm e = None"
    and "0 \<le> kick th" "0 \<le> snare th" "0 \<le> hihat th"
  shows "generate_chart_loop th mi mp st evs = Inr st"
  using assms by (induction evs) (simp_all add: step_all_missing)

text \<open>
  Claim C10. The classifier reads a missing normalised field as 0: classifying an event
  that lacks a field is classifying it with that field set to 0. With a threshold that is
  not negative the strict comparison then fails, so the category of a missing field never
  matches and the chain is the chain of the other two categories. An event that lacks all
  three fields, under thresholds that are not negative, leaves the notes and the last
  accepted time as they were, and a whole sequence of such events emits no note.
\<close>

theorem missing_norm_fields:
  "(kick_energy_norm e = None \<longrightarrow>
      classify_event th mp e = classify_event th mp (e\<lparr>kick_energy_norm := Some 0\<rparr>))
   \<and> (snare_energy_norm e = None \<longrightarrow>
      classify_event th mp e = classify_event th mp (e\<lparr>snare_energy_norm := Some 0\<rparr>))
   \<and> (hihat_energy_norm e = None \<longrightarrow>
      classify_event th mp e = classify_event th mp (e\<lparr>hihat_energy_norm := Some 0\<rparr>))
   \<and> (kick_energy_norm e = None \<and> 0 \<le> kick th \<longrightarrow>
      classify_event th mp e =
        (if snare th < py_get (snare_energy_norm e) 0
         then assign_note mp ''snare'' (py_get (snare_energy_norm e) 0)
         else if hihat th < py_get (hihat_energy_norm e) 0
         then assign_note mp ''hihat'' (py_get (hihat_energy_norm e) 0)
         else Inr (None, 0)))
   \<and> (snare_energy_norm e = None \<and> 0 \<le> snare th \<longrightarrow>
      classify_event th mp e =
        (if kick th < py_get (kick_energy_norm e) 0
         then assign_note mp ''kick'' (py_get (kick_energy_norm e) 0)
         else if hihat th < py_get (hihat_energy_norm e) 0
         then assign_note mp ''hihat'' (py_get (hihat_energy_norm e) 0)
         else Inr (None, 0)))
   \<and> (hihat_energy_norm e = None \<and> 0 \<le> hihat th \<longrightarrow>
      classify_event th mp e =
        (if kick th < py_get (kick_energy_norm e) 0
         then assign_note mp ''kick'' (py_get (kick_energy_norm e) 0)
         else if snare th < py_get (snare_energy_norm e) 0
         then assign_note mp ''snare'' (py_get (snare_energy_norm e) 0)
         else Inr (None, 0)))
   \<and> (kick_energy_norm e = None \<and> snare_energy_norm e = None \<and> hihat_energy_norm e = None
        \<and> 0 \<le> kick th \<and> 0 \<le> snare th \<and> 0 \<le> hihat th \<longrightarrow>
      generate_chart_step th mi mp st e = Inr st)
   \<and> ((\<forall>ev \<in> set evs. kick_energy_norm ev = None \<and> snare_energy_norm ev = None
                            \<and> hihat_energy_norm ev = None)
        \<and> 0 \<le> kick th \<and> 0 \<le> snare th \<and> 0 \<le> hihat th \<longrightarrow>
      generate_chart_loop th mi mp st evs = Inr st)"
proof (intro conjI impI)
  show "classify_event th mp e = classify_event th mp (e\<lparr>kick_energy_norm := Some 0\<rparr>)"
    if "kick_energy_norm e = None"
    using that by (simp add: classify_event_def py_get_def)
  show "classify_event th mp e = classify_event th mp (e\<lparr>snare_energy_norm := Some 0\<rparr>)"
    if "snare_energy_norm e = None"
    using that by (simp add: classify_event_def py_get_def)
  show "classify_event th mp e = classify_event th mp (e\<lparr>hihat_energy_norm := Some 0\<rparr>)"
    if "hihat_energy_norm e = None"
    using that by (simp add: classify_event_def py_get_def)
  show "classify_event th mp e =
        (if snare th < py_get (snare_energy_norm e) 0
         then assign_note mp ''snare'' (py_get (snare_energy_norm e) 0)
         else if hihat th < py_get (hihat_energy_norm e) 0
         then assign_note mp ''hihat'' (py_get (hihat_energy_norm e) 0)
         else Inr (None, 0))"
    if "kick_energy_norm e = None \<and> 0 \<le> kick th"
    using that by (simp add: classify_event_def py_get_def)
  show "classify_event th mp e =
        (if kick th < py_get (kick_energy_norm e) 0
         then assign_note mp ''kick'' (py_get (kick_energy_norm e) 0)
         else if hihat th < py_get (hihat_energy_norm e) 0
         then assign_note mp ''hihat'' (py_get (hihat_energy_norm e) 0)
         else Inr (None, 0))"
    if "snare_energy_norm e = None \<and> 0 \<le> snare th"
    using that by (simp add: classify_event_def py_get_def)
  show "classify_event th mp e =
        (if kick th < py_get (kick_energy_norm e) 0
         then assign_note mp ''kick'' (py_get (kick_energy_norm e) 0)
         else if snare th < py_get (snare_energy_norm e) 0
         then assign_note mp ''snare'' (py_get (snare_energy_norm e) 0)
         else Inr (None, 0))"
    if "hihat_energy_norm e = None \<and> 0 \<le> hihat th"
    using that by (simp add: classify_event_def py_get_def)
  show "generate_chart_step th mi mp st e = Inr st"
    if "kick_energy_norm e = None \<and> snare_energy_norm e = None \<and> hihat_energy_norm e = None
        \<and> 0 \<le> kick th \<and> 0 \<le> snare th \<and> 0 \<le> hihat th"
    using that by (simp add: step_all_missing)
  show "generate_chart_loop th mi mp st evs = Inr st"
    if "(\<forall>ev \<in> set evs. kick_energy_norm ev = None \<and> snare_energy_norm ev = None
                            \<and> hihat_energy_norm ev = None)
        \<and> 0 \<le> kick th \<and> 0 \<le> snare th \<and> 0 \<le> hihat th"
    using that by (simp add: loop_all_missing)
qed

theorem missing_norm_fields_witness:
  "kick_energy_norm (raw_event 0 5 4 3) = None
   \<and> snare_energy_norm (raw_event 0 5 4 3) = None
   \<and> hihat_energy_norm (raw_event 0 5 4 3) = None
   \<and> 0 \<le> kick \<lparr>kick = 0, snare = 1 / 2, hihat = 1 / 2\<rparr>
   \<and> 0 \<le> snare \<lparr>kick = 0, snare = 1 / 2, hihat = 1 / 2\<rparr>
   \<and> 0 \<le> hihat \<lparr>kick = 0, snare = 1 / 2, hihat = 1 / 2\<rparr>
   \<and> classify_event \<lparr>kick = 0, snare = 1 / 2, hihat = 1 / 2\<rparr>
        [''kick'' \<mapsto> ''both'', ''snare'' \<mapsto> ''right'', ''hihat'' \<mapsto> ''left'']
        (raw_event 0 5 4 3)
       = classify_event \<lparr>kick = 0, snare = 1 / 2, hihat = 1 / 2\<rparr>
        [''kick'' \<mapsto> ''both'', ''snare'' \<mapsto> ''right'', ''hihat'' \<mapsto> ''left'']
        ((raw_event 0 5 4 3)\<lparr>kick_energy_norm := Some 0\<rparr>)
   \<and> generate_chart_step \<lparr>kick = 0, snare = 1 / 2, hihat = 1 / 2\<rparr> (1 / 10)
        [''kick'' \<mapsto> ''both'', ''snare'' \<mapsto> ''right'', ''hihat'' \<mapsto> ''left'']
        ([], - 999) (raw_event 0 5 4 3) = Inr ([], - 999)
   \<and> generate_chart_loop \<lparr>kick = 0, snare = 1 / 2, hihat = 1 / 2\<rparr> (1 / 10)
        [''kick'' \<mapsto> ''both'', ''snare'' \<mapsto> ''right'', ''hihat'' \<mapsto> ''left'']
        ([], - 999) [raw_event 0 5 4 3, raw_event 1 5 4 3] = Inr ([], - 999)"
proof -
  have fields: "kick_energy_norm (raw_event 0 5 4 3) = None"
    "snare_energy_norm (raw_event 0 5 4 3) = None"
    "hihat_energy_norm (raw_event 0 5 4 3) = None"
    by (simp_all add: raw_event_def)
  have ths: "0 \<le> kick \<lparr>kick = 0, snare = 1 / 2, hihat = 1 / 2\<rparr>"
    "0 \<le> snare \<lparr>kick = 0, snare = 1 / 2, hihat = 1 / 2\<rparr>"
    "0 \<le> hihat \<lparr>kick = 0, snare = 1 / 2, hihat = 1 / 2\<rparr>"
    by simp_all
  have evs: "\<forall>ev \<in> set [raw_event 0 5 4 3, raw_event 1 5 4 3].
      kick_energy_norm ev = None \<and> snare_energy_norm ev = None \<and> hihat_energy_norm ev = None"
    by (simp add: raw_event_def)
  show ?thesis
    using fields ths evs
      missing_norm_fields [of "raw_event 0 5 4 3" "\<lparr>kick = 0, snare = 1 / 2, hihat = 1 / 2\<rparr>"
        "[''kick'' \<mapsto> ''both'', ''snare'' \<mapsto> ''right'', ''hihat'' \<mapsto> ''left'']"
        "1 / 10" "([], - 999)" "[raw_event 0 5 4 3, raw_event 1 5 4 3]"]
    by blast
qed

section \<open>Spacing of the emitted notes\<close>

lemma step_cases:
  assumes "generate_chart_step th mi mp (ns, lt) e = Inr (ns', lt')"
  shows "(ns' = ns \<and> lt' = lt)
         \<or> (\<not> drum_event.time e - lt < mi \<and> lt' = drum_event.time e
             \<and> (\<exists>label v. ns' = ns @ [\<lparr>time = py_round (drum_event.time e) 3,
                                           note_type = label, velocity = v\<rparr>]))"
  using assms
  by (auto simp: generate_chart_step_def Let_def append_note_def
      split: if_splits sum.splits option.splits prod.splits)

lemma step_invariant:
  assumes step: "generate_chart_step th mi mp (ns, lt) e = Inr (ns', lt')"
    and succ: "successively (\<lambda>a b. mi - 1 / 1000 \<le> time b - time a) ns"
    and lst: "ns \<noteq> [] \<longrightarrow> \<bar>time (last ns) - lt\<bar> \<le> 1 / 2000"
  shows "successively (\<lambda>a b. mi - 1 / 1000 \<le> time b - time a) ns'
         \<and> (ns' \<noteq> [] \<longrightarrow> \<bar>time (last ns') - lt'\<bar> \<le> 1 / 2000)"
proof -
  from step_cases [OF step]
  consider (same) "ns' = ns" "lt' = lt"
    | (emit) label v where "\<not> drum_event.time e - lt < mi" "lt' = drum_event.time e"
        "ns' = ns @ [\<lparr>time = py_round (drum_event.time e) 3, note_type = label, velocity = v\<rparr>]"
    by blast
  then show ?thesis
  proof cases
    case same
    then show ?thesis using succ lst by simp
  next
    case emit
    have r: "\<bar>py_round (drum_event.time e) 3 - drum_event.time e\<bar> \<le> 1 / 2000"
      by (rule py_round_error)
    have adj: "mi - 1 / 1000 \<le> py_round (drum_event.time e) 3 - time (last ns)" if "ns \<noteq> []"
    proof -
      have "\<bar>time (last ns) - lt\<bar> \<le> 1 / 2000" using that lst by blast
      then show ?thesis using r emit(1) by linarith
    qed
    show ?thesis
      using emit succ adj r by (auto simp: successively_append_iff)
  qed
qed

lemma loop_invariant:
  assumes "generate_chart_loop th mi mp (ns, lt) evs = Inr (ns', lt')"
    and "successively (\<lambda>a b. mi - 1 / 1000 \<le> time b - time a) ns"
    and "ns \<noteq> [] \<longrightarrow> \<bar>time (last ns) - lt\<bar> \<le> 1 / 2000"
  shows "successively (\<lambda>a b. mi - 1 / 1000 \<le> time b - time a) ns'"
  using assms
proof (induction evs arbitrary: ns lt)
  case Nil
  then show ?case by simp
next
  case (Cons e evs)
  from Cons.prems(1) obtain ns1 lt1 where
    s: "generate_chart_step th mi mp (ns, lt) e = Inr (ns1, lt1)"
    and l: "generate_chart_loop th mi mp (ns1, lt1) evs = Inr (ns', lt')"
    by (auto split: sum.splits)
  from step_invariant [OF s Cons.prems(2) Cons.prems(3)]
  show ?case using Cons.IH [OF l] by blast
qed

lemma assign_note_returns:
  "mp name \<noteq> None \<Longrightarrow> \<exists>label. assign_note mp name v = Inr (Some label, v)"
  by (auto simp: assign_note_def py_getitem_def)

lemma classify_event_returns:
  assumes "mp ''kick'' \<noteq> None" "mp ''snare'' \<noteq> None" "mp ''hihat'' \<noteq> None"
  shows "\<exists>r. classify_event th mp e = Inr r"
  using assms assign_note_returns [of mp]
  by (simp add: classify_event_def Let_def) blast

lemma step_returns:
  assumes "mp ''kick'' \<noteq> None" "mp ''snare'' \<noteq> None" "mp ''hihat'' \<noteq> None"
  shows "\<exists>st'. generate_chart_step th mi mp st e = Inr st'"
proof -
  obtain r where "classify_event th mp e = Inr r"
    using classify_event_returns [OF assms] by blast
  then show ?thesis
    by (simp add: generate_chart_step_def Let_def split: prod.splits option.splits)
qed

lemma loop_returns:
  assumes "mp ''kick'' \<noteq> None" "mp ''snare'' \<noteq> None" "mp ''hihat'' \<noteq> None"
  shows "\<exists>st'. generate_chart_loop th mi mp st evs = Inr st'"
proof (induction evs arbitrary: st)
  case Nil
  show ?case by simp
next
  case (Cons e evs)
  obtain st1 where "generate_chart_step th mi mp st e = Inr st1"
    using step_returns [OF assms] by blast
  then show ?case using Cons.IH [of st1] by simp
qed

lemma generate_chart_returns:
  assumes "cfg ''kick_threshold'' \<noteq> None" "cfg ''snare_threshold'' \<noteq> None"
    "cfg ''hihat_threshold'' \<noteq> None" "cfg ''min_interval'' \<noteq> None"
    and "mp ''kick'' \<noteq> None" "mp ''snare'' \<noteq> None" "mp ''hihat'' \<noteq> None"
  shows "\<exists>c. generate_chart evs cfg mp sid d = Inr c"
proof -
  obtain kt st ht mi where cfg: "cfg ''kick_threshold'' = Some kt" "cfg ''snare_threshold'' = Some st"
    "cfg ''hihat_threshold'' = Some ht" "cfg ''min_interval'' = Some mi"
    using assms(1-4) by blast
  obtain fin where "generate_chart_loop \<lparr>kick = kt, snare = st, hihat = ht\<rparr> mi mp ([], - 999) evs = Inr fin"
    using loop_returns [OF assms(5-7)] by blast
  then show ?thesis
    using cfg by (simp add: generate_chart_def py_getitem_def Let_def)
qed

lemma generate_chart_Inr:
  assumes "generate_chart evs cfg mp sid d = Inr c"
  obtains kt st ht mi last_time where
    "cfg ''kick_threshold'' = Some kt" "cfg ''snare_threshold'' = Some st"
    "cfg ''hihat_threshold'' = Some ht" "cfg ''min_interval'' = Some mi"
    "generate_chart_loop \<lparr>kick = kt, snare = st, hihat = ht\<rparr> mi mp ([], - 999) evs
       = Inr (notes c, last_time)"
    "songId c = sid" "difficulty c = d"
    "metadata c = \<lparr>generatedBy = ''algorithm'', noteCount = length (notes c),
        leftCount = count_type ''left'' (notes c), rightCount = count_type ''right'' (notes c),
        bothCount = count_type ''both'' (notes c),
        averageInterval =
          (if 1 < length (notes c) then py_round (np_mean (intervals (notes c))) 3 else 0)\<rparr>"
  using assms
  by (auto simp: generate_chart_def py_getitem_def Let_def
      split: option.splits sum.splits)

text \<open>
  Claim C2. In every chart the generator returns, each note comes at least the minimum
  interval after the note before it, up to the rounding of the two times: the difference
  of the rounded times is at least the minimum interval less 0.001 s. This holds for every
  event sequence, ascending or not. It holds because an event is skipped whenever its
  time less the last accepted time is strictly below the minimum interval, and because an
  iteration that emits a note sets the last accepted time to the event's own, unrounded
  time while the note gets the rounded one. The generator returns a chart whenever the
  configuration has its four keys and the mapping its three.
\<close>

theorem minimum_interval:
  "(generate_chart evs cfg mp sid d = Inr c \<longrightarrow>
      (\<exists>min_interval. cfg ''min_interval'' = Some min_interval
         \<and> (\<forall>i. Suc i < length (notes c) \<longrightarrow>
               min_interval - 1 / 1000 \<le> time (notes c ! Suc i) - time (notes c ! i))))
   \<and> (drum_event.time e - last_time < mi \<longrightarrow>
        generate_chart_step th mi mp (ns, last_time) e = Inr (ns, last_time))
   \<and> (generate_chart_step th mi mp (ns, last_time) e = Inr (ns', last_time') \<and> ns' \<noteq> ns \<longrightarrow>
        last_time' = drum_event.time e \<and> \<not> drum_event.time e - last_time < mi
        \<and> butlast ns' = ns \<and> time (last ns') = py_round (drum_event.time e) 3)
   \<and> (cfg ''kick_threshold'' \<noteq> None \<and> cfg ''snare_threshold'' \<noteq> None
        \<and> cfg ''hihat_threshold'' \<noteq> None \<and> cfg ''min_interval'' \<noteq> None
        \<and> mp ''kick'' \<noteq> None \<and> mp ''snare'' \<noteq> None \<and> mp ''hihat'' \<noteq> None \<longrightarrow>
        (\<exists>c'. generate_chart evs cfg mp sid d = Inr c'))"
proof -
  have A: "generate_chart evs cfg mp sid d = Inr c \<longrightarrow>
      (\<exists>min_interval. cfg ''min_interval'' = Some min_interval
         \<and> (\<forall>i. Suc i < length (notes c) \<longrightarrow>
               min_interval - 1 / 1000 \<le> time (notes c ! Suc i) - time (notes c ! i)))"
  proof
    assume g: "generate_chart evs cfg mp sid d = Inr c"
    then obtain kt st ht min_interval lt where
      m: "cfg ''min_interval'' = Some min_interval"
      and loop: "generate_chart_loop \<lparr>kick = kt, snare = st, hihat = ht\<rparr> min_interval mp
                   ([], - 999) evs = Inr (notes c, lt)"
      by (rule generate_chart_Inr)
    have "successively (\<lambda>a b. min_interval - 1 / 1000 \<le> time b - time a) (notes c)"
      using loop by (rule loop_invariant) simp_all
    then have "\<forall>i. Suc i < length (notes c) \<longrightarrow>
               min_interval - 1 / 1000 \<le> time (notes c ! Suc i) - time (notes c ! i)"
      by (simp add: successively_conv_nth)
    with m show "\<exists>min_interval. cfg ''min_interval'' = Some min_interval
         \<and> (\<forall>i. Suc i < length (notes c) \<longrightarrow>
               min_interval - 1 / 1000 \<le> time (notes c ! Suc i) - time (notes c ! i))"
      by blast
  qed
  have B: "drum_event.time e - last_time < mi \<longrightarrow>
        generate_chart_step th mi mp (ns, last_time) e = Inr (ns, last_time)"
    by (simp add: step_gate)
  have C: "generate_chart_step th mi mp (ns, last_time) e = Inr (ns', last_time') \<and> ns' \<noteq> ns \<longrightarrow>
        last_time' = drum_event.time e \<and> \<not> drum_event.time e - last_time < mi
        \<and> butlast ns' = ns \<and> time (last ns') = py_round (drum_event.time e) 3"
    using step_cases [of th mi mp ns last_time e ns' last_time'] by auto
  have D: "cfg ''kick_threshold'' \<noteq> None \<and> cfg ''snare_threshold'' \<noteq> None
        \<and> cfg ''hihat_threshold'' \<noteq> None \<and> cfg ''min_interval'' \<noteq> None
        \<and> mp ''kick'' \<noteq> None \<and> mp ''snare'' \<noteq> None \<and> mp ''hihat'' \<noteq> None \<longrightarrow>
        (\<exists>c'. generate_chart evs cfg mp sid d = Inr c')"
    using generate_chart_returns [of cfg mp evs sid d] by blast
  show ?thesis
    by (rule conjI [OF A conjI [OF B conjI [OF C D]]])
qed


theorem minimum_interval_witness:
  "generate_chart
     [with_norms (raw_event 0 5 1 1) (9 / 10) (1 / 10) (1 / 10),
      with_norms (raw_event (1 / 20) 5 1 1) (9 / 10) (1 / 10) (1 / 10),
      with_norms (raw_event (2006 / 10000) 1 4 1) (1 / 10) (8 / 10) (1 / 10)]
     [''kick_threshold'' \<mapsto> 1 / 2, ''snare_threshold'' \<mapsto> 1 / 2,
      ''hihat_threshold'' \<mapsto> 1 / 2, ''min_interval'' \<mapsto> 1 / 10]
     [''kick'' \<mapsto> ''both'', ''snare'' \<mapsto> ''right'', ''hihat'' \<mapsto> ''left'']
     ''demo'' ''easy''
   = Inr \<lparr>songId = ''demo'', difficulty = ''easy'',
          notes = [\<lparr>time = 0, note_type = ''both'', velocity = 9 / 10\<rparr>,
                   \<lparr>time = 201 / 1000, note_type = ''right'', velocity = 8 / 10\<rparr>],
          metadata = \<lparr>generatedBy = ''algorithm'', noteCount = 2, leftCount = 0,
                       rightCount = 1, bothCount = 1, averageInterval = 201 / 1000\<rparr>\<rparr>
   \<and> 1 / 10 - 1 / 1000
       \<le> time ([\<lparr>time = 0, note_type = ''both'', velocity = 9 / 10\<rparr>,
                 \<lparr>time = 201 / 1000, note_type = ''right'', velocity = 8 / 10\<rparr>] ! Suc 0)
         - time ([\<lparr>time = 0, note_type = ''both'', velocity = 9 / 10\<rparr>,
                 \<lparr>time = 201 / 1000, note_type = ''right'', velocity = 8 / 10\<rparr>] ! 0)
   \<and> drum_event.time (with_norms (raw_event (1 / 20) 5 1 1) (9 / 10) (1 / 10) (1 / 10)) - 0 < 1 / 10
   \<and> generate_chart_step \<lparr>kick = 1 / 2, snare = 1 / 2, hihat = 1 / 2\<rparr> (1 / 10)
         [''kick'' \<mapsto> ''both'', ''snare'' \<mapsto> ''right'', ''hihat'' \<mapsto> ''left'']
         ([\<lparr>time = 0, note_type = ''both'', velocity = 9 / 10\<rparr>], 0) (with_norms (raw_event (1 / 20) 5 1 1) (9 / 10) (1 / 10) (1 / 10))
       = Inr ([\<lparr>time = 0, note_type = ''both'', velocity = 9 / 10\<rparr>], 0)
   \<and> generate_chart_step \<lparr>kick = 1 / 2, snare = 1 / 2, hihat = 1 / 2\<rparr> (1 / 10)
         [''kick'' \<mapsto> ''both'', ''snare'' \<mapsto> ''right'', ''hihat'' \<mapsto> ''left'']
         ([\<lparr>time = 0, note_type = ''both'', velocity = 9 / 10\<rparr>], 0) (with_norms (raw_event (2006 / 10000) 1 4 1) (1 / 10) (8 / 10) (1 / 10))
       = Inr ([\<lparr>time = 0, note_type = ''both'', velocity = 9 / 10\<rparr>,
               \<lparr>time = 201 / 1000, note_type = ''right'', velocity = 8 / 10\<rparr>], 2006 / 10000)"
proof -
  let ?evs = "[with_norms (raw_event 0 5 1 1) (9 / 10) (1 / 10) (1 / 10),
      with_norms (raw_event (1 / 20) 5 1 1) (9 / 10) (1 / 10) (1 / 10),
      with_norms (raw_event (2006 / 10000) 1 4 1) (1 / 10) (8 / 10) (1 / 10)]"
  let ?cfg = "[''kick_threshold'' \<mapsto> 1 / 2, ''snare_threshold'' \<mapsto> 1 / 2,
      ''hihat_threshold'' \<mapsto> 1 / 2, ''min_interval'' \<mapsto> 1 / 10]"
  let ?mp = "[''kick'' \<mapsto> ''both'', ''snare'' \<mapsto> ''right'', ''hihat'' \<mapsto> ''left'']"
  let ?c = "\<lparr>songId = ''demo'', difficulty = ''easy'',
          notes = [\<lparr>time = 0, note_type = ''both'', velocity = 9 / 10\<rparr>,
                   \<lparr>time = 201 / 1000, note_type = ''right'', velocity = 8 / 10\<rparr>],
          metadata = \<lparr>generatedBy = ''algorithm'', noteCount = 2, leftCount = 0,
                       rightCount = 1, bothCount = 1, averageInterval = 201 / 1000\<rparr>\<rparr>"
  let ?e2 = "(with_norms (raw_event (1 / 20) 5 1 1) (9 / 10) (1 / 10) (1 / 10))"
  note inst = minimum_interval [where evs = ?evs and cfg = ?cfg and mp = ?mp and sid = "''demo''"
      and d = "''easy''" and c = ?c and e = ?e2 and last_time = 0 and mi = "1 / 10"
      and th = "\<lparr>kick = 1 / 2, snare = 1 / 2, hihat = 1 / 2\<rparr>"
      and ns = "[\<lparr>time = 0, note_type = ''both'', velocity = 9 / 10\<rparr>]"]
  have g: "generate_chart ?evs ?cfg ?mp ''demo'' ''easy'' = Inr ?c"
    by (simp add: generate_chart_def py_getitem_def generate_chart_step_def classify_event_def
        assign_note_def append_note_def py_truthy_def py_get_def with_norms_def raw_event_def
        py_round_def round_half_even_def count_type_def intervals_def np_mean_def Let_def)
  have gate: "drum_event.time ?e2 - 0 < 1 / 10"
    by (simp add: with_norms_def raw_event_def)
  from inst g obtain m where m: "?cfg ''min_interval'' = Some m"
    and sp: "\<forall>i. Suc i < length (notes ?c) \<longrightarrow>
               m - 1 / 1000 \<le> time (notes ?c ! Suc i) - time (notes ?c ! i)"
    by blast
  from m have "m = 1 / 10" by simp
  with sp have "1 / 10 - 1 / 1000 \<le> time (notes ?c ! Suc 0) - time (notes ?c ! 0)"
    by simp
  moreover from inst gate have "generate_chart_step \<lparr>kick = 1 / 2, snare = 1 / 2, hihat = 1 / 2\<rparr> (1 / 10) ?mp
         ([\<lparr>time = 0, note_type = ''both'', velocity = 9 / 10\<rparr>], 0) ?e2
       = Inr ([\<lparr>time = 0, note_type = ''both'', velocity = 9 / 10\<rparr>], 0)"
    by blast
  moreover have "generate_chart_step \<lparr>kick = 1 / 2, snare = 1 / 2, hihat = 1 / 2\<rparr> (1 / 10) ?mp
         ([\<lparr>time = 0, note_type = ''both'', velocity = 9 / 10\<rparr>], 0) (with_norms (raw_event (2006 / 10000) 1 4 1) (1 / 10) (8 / 10) (1 / 10))
       = Inr ([\<lparr>time = 0, note_type = ''both'', velocity = 9 / 10\<rparr>,
               \<lparr>time = 201 / 1000, note_type = ''right'', velocity = 8 / 10\<rparr>], 2006 / 10000)"
    by (simp add: generate_chart_step_def classify_event_def assign_note_def append_note_def
        py_getitem_def py_truthy_def py_get_def with_norms_def raw_event_def py_round_def
        round_half_even_def Let_def)
  ultimately show ?thesis using g gate by simp
qed

section \<open>The chart validator\<close>

lemma check_note_acc: "check_note d ns p acc = acc @ check_note d ns p []"
  by (simp add: check_note_def Let_def)

lemma check_note_Nil:
  "check_note d ns (i, n) [] =
     (if time n < 0 then [NegativeTime i (time n)] else [])
     @ (if d < time n then [BeyondDuration i (time n) d] else [])
     @ (if \<not> (0 \<le> velocity n \<and> velocity n \<le> 1) then [VelocityOutOfRange i (velocity n)] else [])
     @ (if note_type n \<notin> {''left'', ''right'', ''both''} then [InvalidType i (note_type n)] else [])
     @ (if 0 < i \<and> time n - time (ns ! (i - 1)) < 15 / 100
        then [IntervalTooShort (i - 1) i (time n - time (ns ! (i - 1)))] else [])"
  by (simp add: check_note_def Let_def)


lemma fold_check_note:
  "fold (check_note d ns) ps acc = acc @ concat (map (\<lambda>p. check_note d ns p []) ps)"
proof (induction ps arbitrary: acc)
  case Nil
  show ?case by simp
next
  case (Cons p ps)
  show ?case
    using Cons.IH [of "check_note d ns p acc"] check_note_acc [of d ns p acc] by simp
qed

lemma enumerate_nth: "enumerate 0 xs = map (\<lambda>i. (i, xs ! i)) [0..<length xs]"
  by (rule nth_equalityI) (simp_all add: nth_enumerate_eq)

lemma validate_chart_concat:
  "notes c \<noteq> [] \<Longrightarrow>
     validate_chart c d =
       concat (map (\<lambda>i. check_note d (notes c) (i, notes c ! i) []) [0..<length (notes c)])"
  by (simp add: validate_chart_def Let_def fold_check_note enumerate_nth comp_def)

lemma validate_chart_mem:
  assumes "i < length (notes c)" and "x \<in> set (check_note d (notes c) (i, notes c ! i) [])"
  shows "x \<in> set (validate_chart c d)"
proof -
  have "notes c \<noteq> []" using assms(1) by auto
  then have "validate_chart c d =
       concat (map (\<lambda>i. check_note d (notes c) (i, notes c ! i) []) [0..<length (notes c)])"
    by (rule validate_chart_concat)
  moreover have "i \<in> set [0..<length (notes c)]" using assms(1) by simp
  ultimately show ?thesis
    using assms(2) by (simp only: set_concat set_map) blast
qed

text \<open>
  Claim C9. The validator is a total function to lists of issues. On a chart without
  notes it returns the one issue that the chart is empty, and nothing else is checked. On
  any other chart the result is, note by note in order, everything the checks of that note
  find: nothing stops at the first finding. So every note later than the audio duration
  has its out-of-range issue in the result, and likewise every negative time, every
  velocity outside [0, 1], every label other than left, right and both, and every note
  less than 0.15 s after the one before it.
\<close>

theorem validator_complete:
  "(notes c = [] \<longrightarrow> validate_chart c audio_duration = [EmptyChart])
   \<and> (notes c \<noteq> [] \<longrightarrow>
        validate_chart c audio_duration =
          concat (map (\<lambda>i. check_note audio_duration (notes c) (i, notes c ! i) [])
                    [0..<length (notes c)]))
   \<and> (\<forall>i < length (notes c).
        (audio_duration < time (notes c ! i) \<longrightarrow>
           BeyondDuration i (time (notes c ! i)) audio_duration
             \<in> set (validate_chart c audio_duration))
        \<and> (time (notes c ! i) < 0 \<longrightarrow>
           NegativeTime i (time (notes c ! i)) \<in> set (validate_chart c audio_duration))
        \<and> (\<not> (0 \<le> velocity (notes c ! i) \<and> velocity (notes c ! i) \<le> 1) \<longrightarrow>
           VelocityOutOfRange i (velocity (notes c ! i)) \<in> set (validate_chart c audio_duration))
        \<and> (note_type (notes c ! i) \<notin> {''left'', ''right'', ''both''} \<longrightarrow>
           InvalidType i (note_type (notes c ! i)) \<in> set (validate_chart c audio_duration))
        \<and> (0 < i \<and> time (notes c ! i) - time (notes c ! (i - 1)) < 15 / 100 \<longrightarrow>
           IntervalTooShort (i - 1) i (time (notes c ! i) - time (notes c ! (i - 1)))
             \<in> set (validate_chart c audio_duration)))"
proof -
  have A: "notes c = [] \<longrightarrow> validate_chart c audio_duration = [EmptyChart]"
    by (simp add: validate_chart_def)
  have B: "notes c \<noteq> [] \<longrightarrow>
        validate_chart c audio_duration =
          concat (map (\<lambda>i. check_note audio_duration (notes c) (i, notes c ! i) [])
                    [0..<length (notes c)])"
    by (simp add: validate_chart_concat)
  have C: "\<forall>i < length (notes c).
        (audio_duration < time (notes c ! i) \<longrightarrow>
           BeyondDuration i (time (notes c ! i)) audio_duration
             \<in> set (validate_chart c audio_duration))
        \<and> (time (notes c ! i) < 0 \<longrightarrow>
           NegativeTime i (time (notes c ! i)) \<in> set (validate_chart c audio_duration))
        \<and> (\<not> (0 \<le> velocity (notes c ! i) \<and> velocity (notes c ! i) \<le> 1) \<longrightarrow>
           VelocityOutOfRange i (velocity (notes c ! i)) \<in> set (validate_chart c audio_duration))
        \<and> (note_type (notes c ! i) \<notin> {''left'', ''right'', ''both''} \<longrightarrow>
           InvalidType i (note_type (notes c ! i)) \<in> set (validate_chart c audio_duration))
        \<and> (0 < i \<and> time (notes c ! i) - time (notes c ! (i - 1)) < 15 / 100 \<longrightarrow>
           IntervalTooShort (i - 1) i (time (notes c ! i) - time (notes c ! (i - 1)))
             \<in> set (validate_chart c audio_duration))"
  proof (intro allI impI)
    fix i assume i: "i < length (notes c)"
    note mem = validate_chart_mem [OF i, of _ audio_duration]
    have 1: "audio_duration < time (notes c ! i) \<Longrightarrow>
           BeyondDuration i (time (notes c ! i)) audio_duration
             \<in> set (validate_chart c audio_duration)"
      by (rule mem) (simp add: check_note_Nil)
    have 2: "time (notes c ! i) < 0 \<Longrightarrow>
           NegativeTime i (time (notes c ! i)) \<in> set (validate_chart c audio_duration)"
      by (rule mem) (simp add: check_note_Nil)
    have 3: "\<not> (0 \<le> velocity (notes c ! i) \<and> velocity (notes c ! i) \<le> 1) \<Longrightarrow>
           VelocityOutOfRange i (velocity (notes c ! i)) \<in> set (validate_chart c audio_duration)"
      by (rule mem) (simp add: check_note_Nil)
    have 4: "note_type (notes c ! i) \<notin> {''left'', ''right'', ''both''} \<Longrightarrow>
           InvalidType i (note_type (notes c ! i)) \<in> set (validate_chart c audio_duration)"
      by (rule mem) (simp add: check_note_Nil)
    have 5: "0 < i \<and> time (notes c ! i) - time (notes c ! (i - 1)) < 15 / 100 \<Longrightarrow>
           IntervalTooShort (i - 1) i (time (notes c ! i) - time (notes c ! (i - 1)))
             \<in> set (validate_chart c audio_duration)"
      by (rule mem) (simp add: check_note_Nil)
    show "(audio_duration < time (notes c ! i) \<longrightarrow>
           BeyondDuration i (time (notes c ! i)) audio_duration
             \<in> set (validate_chart c audio_duration))
        \<and> (time (notes c ! i) < 0 \<longrightarrow>
           NegativeTime i (time (notes c ! i)) \<in> set (validate_chart c audio_duration))
        \<and> (\<not> (0 \<le> velocity (notes c ! i) \<and> velocity (notes c ! i) \<le> 1) \<longrightarrow>
           VelocityOutOfRange i (velocity (notes c ! i)) \<in> set (validate_chart c audio_duration))
        \<and> (note_type (notes c ! i) \<notin> {''left'', ''right'', ''both''} \<longrightarrow>
           InvalidType i (note_type (notes c ! i)) \<in> set (validate_chart c audio_duration))
        \<and> (0 < i \<and> time (notes c ! i) - time (notes c ! (i - 1)) < 15 / 100 \<longrightarrow>
           IntervalTooShort (i - 1) i (time (notes c ! i) - time (notes c ! (i - 1)))
             \<in> set (validate_chart c audio_duration))"
      by (intro conjI impI 1 2 3 4 5) simp_all
  qed
  show ?thesis
    by (rule conjI [OF A conjI [OF B C]])
qed

theorem validator_complete_witness:
  "notes \<lparr>songId = ''demo'', difficulty = ''easy'', notes = [], metadata = \<lparr>generatedBy = ''algorithm'', noteCount = 0, leftCount = 0, rightCount = 0, bothCount = 0, averageInterval = 0\<rparr>\<rparr> = []
   \<and> validate_chart \<lparr>songId = ''demo'', difficulty = ''easy'', notes = [], metadata = \<lparr>generatedBy = ''algorithm'', noteCount = 0, leftCount = 0, rightCount = 0, bothCount = 0, averageInterval = 0\<rparr>\<rparr> 3 = [EmptyChart]
   \<and> 1 < length (notes \<lparr>songId = ''demo'', difficulty = ''easy'',
        notes = [\<lparr>time = - 1, note_type = ''up'', velocity = 9 / 10\<rparr>,
                 \<lparr>time = 4, note_type = ''right'', velocity = 2\<rparr>,
                 \<lparr>time = 41 / 10, note_type = ''left'', velocity = 1 / 2\<rparr>],
        metadata = \<lparr>generatedBy = ''algorithm'', noteCount = 3, leftCount = 1,
                     rightCount = 1, bothCount = 0, averageInterval = 255 / 100\<rparr>\<rparr>)
   \<and> 3 < time (notes \<lparr>songId = ''demo'', difficulty = ''easy'',
        notes = [\<lparr>time = - 1, note_type = ''up'', velocity = 9 / 10\<rparr>,
                 \<lparr>time = 4, note_type = ''right'', velocity = 2\<rparr>,
                 \<lparr>time = 41 / 10, note_type = ''left'', velocity = 1 / 2\<rparr>],
        metadata = \<lparr>generatedBy = ''algorithm'', noteCount = 3, leftCount = 1,
                     rightCount = 1, bothCount = 0, averageInterval = 255 / 100\<rparr>\<rparr> ! 1)
   \<and> BeyondDuration 1 (time (notes \<lparr>songId = ''demo'', difficulty = ''easy'',
        notes = [\<lparr>time = - 1, note_type = ''up'', velocity = 9 / 10\<rparr>,
                 \<lparr>time = 4, note_type = ''right'', velocity = 2\<rparr>,
                 \<lparr>time = 41 / 10, note_type = ''left'', velocity = 1 / 2\<rparr>],
        metadata = \<lparr>generatedBy = ''algorithm'', noteCount = 3, leftCount = 1,
                     rightCount = 1, bothCount = 0, averageInterval = 255 / 100\<rparr>\<rparr> ! 1)) 3
        \<in> set (validate_chart \<lparr>songId = ''demo'', difficulty = ''easy'',
        notes = [\<lparr>time = - 1, note_type = ''up'', velocity = 9 / 10\<rparr>,
                 \<lparr>time = 4, note_type = ''right'', velocity = 2\<rparr>,
                 \<lparr>time = 41 / 10, note_type = ''left'', velocity = 1 / 2\<rparr>],
        metadata = \<lparr>generatedBy = ''algorithm'', noteCount = 3, leftCount = 1,
                     rightCount = 1, bothCount = 0, averageInterval = 255 / 100\<rparr>\<rparr> 3)
   \<and> validate_chart \<lparr>songId = ''demo'', difficulty = ''easy'',
        notes = [\<lparr>time = - 1, note_type = ''up'', velocity = 9 / 10\<rparr>,
                 \<lparr>time = 4, note_type = ''right'', velocity = 2\<rparr>,
                 \<lparr>time = 41 / 10, note_type = ''left'', velocity = 1 / 2\<rparr>],
        metadata = \<lparr>generatedBy = ''algorithm'', noteCount = 3, leftCount = 1,
                     rightCount = 1, bothCount = 0, averageInterval = 255 / 100\<rparr>\<rparr> 3
       = [NegativeTime 0 (- 1), InvalidType 0 ''up'', BeyondDuration 1 4 3,
          VelocityOutOfRange 1 2, BeyondDuration 2 (41 / 10) 3, IntervalTooShort 1 2 (1 / 10)]"
proof -
  let ?c0 = "\<lparr>songId = ''demo'', difficulty = ''easy'', notes = [], metadata = \<lparr>generatedBy = ''algorithm'', noteCount = 0, leftCount = 0, rightCount = 0, bothCount = 0, averageInterval = 0\<rparr>\<rparr>"
  let ?c1 = "\<lparr>songId = ''demo'', difficulty = ''easy'',
        notes = [\<lparr>time = - 1, note_type = ''up'', velocity = 9 / 10\<rparr>,
                 \<lparr>time = 4, note_type = ''right'', velocity = 2\<rparr>,
                 \<lparr>time = 41 / 10, note_type = ''left'', velocity = 1 / 2\<rparr>],
        metadata = \<lparr>generatedBy = ''algorithm'', noteCount = 3, leftCount = 1,
                     rightCount = 1, bothCount = 0, averageInterval = 255 / 100\<rparr>\<rparr>"
  have e0: "notes ?c0 = []" by simp
  have len: "1 < length (notes ?c1)" by simp
  have late: "3 < time (notes ?c1 ! 1)" by simp
  have v0: "validate_chart ?c0 3 = [EmptyChart]"
    using validator_complete [of ?c0 3] e0 by blast
  have per_note: "\<forall>i < length (notes ?c1).
      3 < time (notes ?c1 ! i) \<longrightarrow>
        BeyondDuration i (time (notes ?c1 ! i)) 3 \<in> set (validate_chart ?c1 3)"
    using validator_complete [of ?c1 3] by blast
  have v1: "BeyondDuration 1 (time (notes ?c1 ! 1)) 3 \<in> set (validate_chart ?c1 3)"
    using per_note len late by blast
  have all: "validate_chart ?c1 3
       = [NegativeTime 0 (- 1), InvalidType 0 ''up'', BeyondDuration 1 4 3,
          VelocityOutOfRange 1 2, BeyondDuration 2 (41 / 10) 3, IntervalTooShort 1 2 (1 / 10)]"
    by (simp add: validate_chart_def check_note_def enumerate_eq_zip Let_def)
  show ?thesis
    by (intro conjI e0 v0 len late v1 all)
qed

section \<open>The density filter\<close>

lemma py_sorted_reverse_mset: "mset (py_sorted f True xs) = mset xs"
  by (simp add: py_sorted_def)

lemma py_sorted_reverse_sorted: "sorted (rev (map f (py_sorted f True xs)))"
  by (simp add: py_sorted_def rev_map [symmetric])

lemma py_sorted_reverse_stable:
  "filter (\<lambda>x. f x = v) (py_sorted f True xs) = filter (\<lambda>x. f x = v) xs"
proof -
  have "filter (\<lambda>x. f x = v) (py_sorted f True xs)
          = rev (filter (\<lambda>x. f x = v) (sort_key f (rev xs)))"
    by (simp add: py_sorted_def rev_filter)
  also have "\<dots> = rev (filter (\<lambda>x. f x = v) (rev xs))"
    by (simp only: sort_key_stable)
  also have "\<dots> = filter (\<lambda>x. f x = v) xs"
    by (simp add: rev_filter)
  finally show ?thesis .
qed

lemma sorted_rev_take_drop:
  assumes "sorted (rev (map f xs))" and "a \<in> set (take k xs)" and "b \<in> set (drop k xs)"
  shows "f b \<le> f a"
proof -
  have "sorted_wrt (\<lambda>x y. f y \<le> f x) xs"
    using assms(1) by (simp add: sorted_wrt_rev sorted_wrt_map)
  then have "sorted_wrt (\<lambda>x y. f y \<le> f x) (take k xs @ drop k xs)"
    by simp
  then show ?thesis
    using assms(2,3) unfolding sorted_wrt_append by blast
qed

lemma target_count_le:
  assumes "ns \<noteq> []" and "0 < d" and "d < 1"
  shows "nat (max 1 \<lfloor>real (length ns) * d\<rfloor>) \<le> length ns"
proof -
  have pos: "0 < real (length ns)" using assms(1) by simp
  then have "real (length ns) * d < real (length ns)"
    using assms(3) by simp
  then have "\<lfloor>real (length ns) * d\<rfloor> < int (length ns)"
    by (simp add: floor_less_iff)
  moreover have "1 \<le> int (length ns)" using assms(1) by (cases ns) simp_all
  ultimately show ?thesis by simp
qed

lemma apply_density_filter_unfold:
  assumes "0 < d" and "d < 1"
  shows "apply_density_filter ns d =
           sort_key time (take (nat (max 1 \<lfloor>real (length ns) * d\<rfloor>)) (py_sorted velocity True ns))"
proof -
  have "0 \<le> real (length ns) * d" using assms(1) by simp
  then have "py_int (real (length ns) * d) = \<lfloor>real (length ns) * d\<rfloor>"
    by (simp add: py_int_def)
  then show ?thesis
    using assms(2) by (simp add: apply_density_filter_def Let_def py_sorted_def)
qed

text \<open>
  Claim C6, as the code has it. A target density of 1 or more gives the notes back as
  they are. For a density strictly between 0 and 1 the output has
  \<open>max(1, floor(len(notes) * d))\<close> notes when there is a note at all, and none when there
  is none; it is ascending in time; it is a part of the input whose every note is at least
  as loud as every note left out; and it is the time-sorted top of a ranking of all notes
  that is descending in velocity and keeps notes of equal velocity in their original
  order.
\<close>

theorem density_filter:
  "(1 \<le> d \<longrightarrow> apply_density_filter ns d = ns)
   \<and> (0 < d \<and> d < 1 \<longrightarrow>
        length (apply_density_filter ns d)
          = (if ns = [] then 0 else nat (max 1 \<lfloor>real (length ns) * d\<rfloor>))
        \<and> sorted (map time (apply_density_filter ns d))
        \<and> mset (apply_density_filter ns d) \<subseteq># mset ns
        \<and> (\<forall>a \<in># mset (apply_density_filter ns d).
              \<forall>b \<in># mset ns - mset (apply_density_filter ns d). velocity b \<le> velocity a)
        \<and> (\<exists>ranked.
              mset ranked = mset ns
              \<and> sorted (rev (map velocity ranked))
              \<and> (\<forall>v. filter (\<lambda>n. velocity n = v) ranked = filter (\<lambda>n. velocity n = v) ns)
              \<and> apply_density_filter ns d
                  = sort_key time (take (nat (max 1 \<lfloor>real (length ns) * d\<rfloor>)) ranked)))"
proof -
  have A: "1 \<le> d \<longrightarrow> apply_density_filter ns d = ns"
    by (simp add: apply_density_filter_def)
  have B: "length (apply_density_filter ns d)
          = (if ns = [] then 0 else nat (max 1 \<lfloor>real (length ns) * d\<rfloor>))
        \<and> sorted (map time (apply_density_filter ns d))
        \<and> mset (apply_density_filter ns d) \<subseteq># mset ns
        \<and> (\<forall>a \<in># mset (apply_density_filter ns d).
              \<forall>b \<in># mset ns - mset (apply_density_filter ns d). velocity b \<le> velocity a)
        \<and> (\<exists>ranked.
              mset ranked = mset ns
              \<and> sorted (rev (map velocity ranked))
              \<and> (\<forall>v. filter (\<lambda>n. velocity n = v) ranked = filter (\<lambda>n. velocity n = v) ns)
              \<and> apply_density_filter ns d
                  = sort_key time (take (nat (max 1 \<lfloor>real (length ns) * d\<rfloor>)) ranked))"
    if d: "0 < d \<and> d < 1"
  proof -
    let ?k = "nat (max 1 \<lfloor>real (length ns) * d\<rfloor>)"
    let ?D = "py_sorted velocity True ns"
    have out: "apply_density_filter ns d = sort_key time (take ?k ?D)"
      using d by (simp add: apply_density_filter_unfold)
    have lenD: "length ?D = length ns"
      by (simp add: py_sorted_def)
    have len: "length (apply_density_filter ns d) = (if ns = [] then 0 else ?k)"
    proof (cases "ns = []")
      case True
      then show ?thesis using out lenD by simp
    next
      case False
      then have "?k \<le> length ns" using d by (simp add: target_count_le)
      then show ?thesis using False out lenD by simp
    qed
    have srt: "sorted (map time (apply_density_filter ns d))"
      by (simp add: out)
    have split: "mset ns = mset (take ?k ?D) + mset (drop ?k ?D)"
      by (metis append_take_drop_id mset_append py_sorted_reverse_mset)
    have mout: "mset (apply_density_filter ns d) = mset (take ?k ?D)"
      by (simp add: out)
    have sub: "mset (apply_density_filter ns d) \<subseteq># mset ns"
      using split mout by simp
    have rest: "mset ns - mset (apply_density_filter ns d) = mset (drop ?k ?D)"
      using split mout by simp
    have top: "\<forall>a \<in># mset (apply_density_filter ns d).
              \<forall>b \<in># mset ns - mset (apply_density_filter ns d). velocity b \<le> velocity a"
    proof (intro ballI)
      fix a b
      assume "a \<in># mset (apply_density_filter ns d)"
        and "b \<in># mset ns - mset (apply_density_filter ns d)"
      then have "a \<in> set (take ?k ?D)" and "b \<in> set (drop ?k ?D)"
        using mout rest by simp_all
      then show "velocity b \<le> velocity a"
        using sorted_rev_take_drop [OF py_sorted_reverse_sorted [of velocity ns]] by blast
    qed
    have rk: "\<exists>ranked.
              mset ranked = mset ns
              \<and> sorted (rev (map velocity ranked))
              \<and> (\<forall>v. filter (\<lambda>n. velocity n = v) ranked = filter (\<lambda>n. velocity n = v) ns)
              \<and> apply_density_filter ns d = sort_key time (take ?k ranked)"
      using py_sorted_reverse_mset [of velocity ns] py_sorted_reverse_sorted [of velocity ns]
        py_sorted_reverse_stable [of velocity _ ns] out
      by blast
    show ?thesis
      by (intro conjI len srt sub top rk)
  qed
  show ?thesis
    using A B by blast
qed

theorem density_filter_witness:
  "(0 :: real) < 2 / 3 \<and> (2 / 3 :: real) < 1
   \<and> length (apply_density_filter
     [\<lparr>time = 0, note_type = ''both'', velocity = 9 / 10\<rparr>,
      \<lparr>time = 1, note_type = ''left'', velocity = 2 / 10\<rparr>,
      \<lparr>time = 2, note_type = ''right'', velocity = 7 / 10\<rparr>] (2 / 3)) = 2
   \<and> apply_density_filter
     [\<lparr>time = 0, note_type = ''both'', velocity = 9 / 10\<rparr>,
      \<lparr>time = 1, note_type = ''left'', velocity = 2 / 10\<rparr>,
      \<lparr>time = 2, note_type = ''right'', velocity = 7 / 10\<rparr>] (2 / 3)
     = [\<lparr>time = 0, note_type = ''both'', velocity = 9 / 10\<rparr>,
      \<lparr>time = 2, note_type = ''right'', velocity = 7 / 10\<rparr>]
   \<and> apply_density_filter
     [\<lparr>time = 0, note_type = ''left'', velocity = 1 / 2\<rparr>,
      \<lparr>time = 1, note_type = ''both'', velocity = 9 / 10\<rparr>,
      \<lparr>time = 2, note_type = ''right'', velocity = 1 / 2\<rparr>] (2 / 3)
     = [\<lparr>time = 0, note_type = ''left'', velocity = 1 / 2\<rparr>,
      \<lparr>time = 1, note_type = ''both'', velocity = 9 / 10\<rparr>]
   \<and> (1 :: real) \<le> 1
   \<and> apply_density_filter
     [\<lparr>time = 0, note_type = ''both'', velocity = 9 / 10\<rparr>,
      \<lparr>time = 1, note_type = ''left'', velocity = 2 / 10\<rparr>,
      \<lparr>time = 2, note_type = ''right'', velocity = 7 / 10\<rparr>] 1
     = [\<lparr>time = 0, note_type = ''both'', velocity = 9 / 10\<rparr>,
      \<lparr>time = 1, note_type = ''left'', velocity = 2 / 10\<rparr>,
      \<lparr>time = 2, note_type = ''right'', velocity = 7 / 10\<rparr>]"
proof -
  let ?ns = "[\<lparr>time = 0, note_type = ''both'', velocity = 9 / 10\<rparr>,
      \<lparr>time = 1, note_type = ''left'', velocity = 2 / 10\<rparr>,
      \<lparr>time = 2, note_type = ''right'', velocity = 7 / 10\<rparr>]"
  let ?tie = "[\<lparr>time = 0, note_type = ''left'', velocity = 1 / 2\<rparr>,
      \<lparr>time = 1, note_type = ''both'', velocity = 9 / 10\<rparr>,
      \<lparr>time = 2, note_type = ''right'', velocity = 1 / 2\<rparr>]"
  have d: "(0 :: real) < 2 / 3 \<and> (2 / 3 :: real) < 1" by simp
  have "length (apply_density_filter ?ns (2 / 3))
          = (if ?ns = [] then 0 else nat (max 1 \<lfloor>real (length ?ns) * (2 / 3)\<rfloor>))"
    using density_filter [of "2 / 3" ?ns] d by blast
  then have len: "length (apply_density_filter ?ns (2 / 3)) = 2"
    by simp
  have out: "apply_density_filter ?ns (2 / 3)
     = [\<lparr>time = 0, note_type = ''both'', velocity = 9 / 10\<rparr>,
      \<lparr>time = 2, note_type = ''right'', velocity = 7 / 10\<rparr>]"
    by (simp add: apply_density_filter_def py_sorted_def py_int_def)
  have tie: "apply_density_filter ?tie (2 / 3)
     = [\<lparr>time = 0, note_type = ''left'', velocity = 1 / 2\<rparr>,
      \<lparr>time = 1, note_type = ''both'', velocity = 9 / 10\<rparr>]"
    by (simp add: apply_density_filter_def py_sorted_def py_int_def)
  have one: "apply_density_filter ?ns 1 = ?ns"
    using density_filter [of 1 ?ns] by simp
  show ?thesis
    using d len out tie one by simp
qed

text \<open>
  Claim C6, as the specification words it, fails on the empty note list: the output is
  empty, of length 0, where \<open>max(1, floor(0 * d))\<close> is 1.
\<close>

theorem density_filter_counterexample:
  "(0 :: real) < 1 / 2 \<and> (1 / 2 :: real) < 1
   \<and> length (apply_density_filter [] (1 / 2))
       \<noteq> nat (max 1 \<lfloor>real (length ([] :: chart_note list)) * (1 / 2)\<rfloor>)"
  by (simp add: apply_density_filter_def py_sorted_def py_int_def)

section \<open>Chart metadata\<close>

lemma count_type_partition:
  assumes "\<forall>n \<in> set ns. note_type n \<in> {''left'', ''right'', ''both''}"
  shows "count_type ''left'' ns + count_type ''right'' ns + count_type ''both'' ns = length ns"
  using assms by (induction ns) (auto simp: count_type_def)

lemma np_mean_intervals:
  "np_mean (intervals ns) =
     (\<Sum>i = 1..<length ns. time (ns ! i) - time (ns ! (i - 1))) / real (length ns - 1)"
  by (simp add: np_mean_def intervals_def interv_sum_list_conv_sum_set_nat)

lemma generate_for_difficulty_Inr:
  assumes "generate_for_difficulty evs dur cfg mp sid d = Inr (c, issues)"
  shows "\<exists>c0. generate_chart evs cfg mp sid d = Inr c0
           \<and> (py_get (cfg ''note_density'') 1 < 1 \<longrightarrow>
                notes c = apply_density_filter (notes c0) (py_get (cfg ''note_density'') 1)
                \<and> metadata c = (metadata c0)\<lparr>noteCount := length (notes c)\<rparr>)
           \<and> (\<not> py_get (cfg ''note_density'') 1 < 1 \<longrightarrow> c = c0)"
  using assms
  by (auto simp: generate_for_difficulty_def Let_def split: sum.splits if_splits)

lemma generate_chart_metadata:
  assumes "generate_chart evs cfg mp sid d = Inr c"
  shows "metadata c = \<lparr>generatedBy = ''algorithm'', noteCount = length (notes c),
        leftCount = count_type ''left'' (notes c), rightCount = count_type ''right'' (notes c),
        bothCount = count_type ''both'' (notes c),
        averageInterval =
          (if 1 < length (notes c) then py_round (np_mean (intervals (notes c))) 3 else 0)\<rparr>"
  using assms by (rule generate_chart_Inr)

lemma generate_for_difficulty_returns:
  assumes "generate_chart evs cfg mp sid d = Inr c0"
  shows "\<exists>c issues. generate_for_difficulty evs dur cfg mp sid d = Inr (c, issues)"
  using assms by (simp add: generate_for_difficulty_def Let_def)

text \<open>
  Claim C3, as the code has it. In every persisted chart \<open>noteCount\<close> is the number of
  notes, with or without density filtering. When no density filter runs (there is no
  \<open>note_density\<close> or it is 1 or more) the persisted chart is the generator's: its
  \<open>leftCount\<close>, \<open>rightCount\<close> and \<open>bothCount\<close> are the numbers of notes labelled left, right
  and both, which add up to the number of notes when every label is one of the three; and
  its \<open>averageInterval\<close> is the mean of the differences of consecutive note times rounded
  to three decimals, or 0 when there are fewer than two notes. A chart is persisted
  whenever the configuration has its four keys and the mapping its three.
\<close>

theorem chart_metadata:
  "(generate_for_difficulty evs dur cfg mp sid d = Inr (c, issues) \<longrightarrow>
      noteCount (metadata c) = length (notes c)
      \<and> (\<not> py_get (cfg ''note_density'') 1 < 1 \<longrightarrow>
           generate_chart evs cfg mp sid d = Inr c
           \<and> leftCount (metadata c) = length (filter (\<lambda>n. note_type n = ''left'') (notes c))
           \<and> rightCount (metadata c) = length (filter (\<lambda>n. note_type n = ''right'') (notes c))
           \<and> bothCount (metadata c) = length (filter (\<lambda>n. note_type n = ''both'') (notes c))
           \<and> ((\<forall>n \<in> set (notes c). note_type n \<in> {''left'', ''right'', ''both''}) \<longrightarrow>
                leftCount (metadata c) + rightCount (metadata c) + bothCount (metadata c)
                  = length (notes c))
           \<and> averageInterval (metadata c) =
               (if length (notes c) < 2 then 0
                else py_round
                  ((\<Sum>i = 1..<length (notes c). time (notes c ! i) - time (notes c ! (i - 1)))
                     / real (length (notes c) - 1)) 3)))
   \<and> (cfg ''kick_threshold'' \<noteq> None \<and> cfg ''snare_threshold'' \<noteq> None
        \<and> cfg ''hihat_threshold'' \<noteq> None \<and> cfg ''min_interval'' \<noteq> None
        \<and> mp ''kick'' \<noteq> None \<and> mp ''snare'' \<noteq> None \<and> mp ''hihat'' \<noteq> None \<longrightarrow>
        (\<exists>c' issues'. generate_for_difficulty evs dur cfg mp sid d = Inr (c', issues')))"
proof -
  have A: "noteCount (metadata c) = length (notes c)
      \<and> (\<not> py_get (cfg ''note_density'') 1 < 1 \<longrightarrow>
           generate_chart evs cfg mp sid d = Inr c
           \<and> leftCount (metadata c) = length (filter (\<lambda>n. note_type n = ''left'') (notes c))
           \<and> rightCount (metadata c) = length (filter (\<lambda>n. note_type n = ''right'') (notes c))
           \<and> bothCount (metadata c) = length (filter (\<lambda>n. note_type n = ''both'') (notes c))
           \<and> ((\<forall>n \<in> set (notes c). note_type n \<in> {''left'', ''right'', ''both''}) \<longrightarrow>
                leftCount (metadata c) + rightCount (metadata c) + bothCount (metadata c)
                  = length (notes c))
           \<and> averageInterval (metadata c) =
               (if length (notes c) < 2 then 0
                else py_round
                  ((\<Sum>i = 1..<length (notes c). time (notes c ! i) - time (notes c ! (i - 1)))
                     / real (length (notes c) - 1)) 3))"
    if g: "generate_for_difficulty evs dur cfg mp sid d = Inr (c, issues)"
  proof -
    from generate_for_difficulty_Inr [OF g] obtain c0
      where c0: "generate_chart evs cfg mp sid d = Inr c0"
      and filtered: "py_get (cfg ''note_density'') 1 < 1 \<longrightarrow>
           notes c = apply_density_filter (notes c0) (py_get (cfg ''note_density'') 1)
           \<and> metadata c = (metadata c0)\<lparr>noteCount := length (notes c)\<rparr>"
      and plain: "\<not> py_get (cfg ''note_density'') 1 < 1 \<longrightarrow> c = c0"
      by blast
    note meta0 = generate_chart_metadata [OF c0]
    have cnt: "noteCount (metadata c) = length (notes c)"
    proof (cases "py_get (cfg ''note_density'') 1 < 1")
      case True
      then show ?thesis using filtered by simp
    next
      case False
      then show ?thesis using plain meta0 by simp
    qed
    have rest: "generate_chart evs cfg mp sid d = Inr c
           \<and> leftCount (metadata c) = length (filter (\<lambda>n. note_type n = ''left'') (notes c))
           \<and> rightCount (metadata c) = length (filter (\<lambda>n. note_type n = ''right'') (notes c))
           \<and> bothCount (metadata c) = length (filter (\<lambda>n. note_type n = ''both'') (notes c))
           \<and> ((\<forall>n \<in> set (notes c). note_type n \<in> {''left'', ''right'', ''both''}) \<longrightarrow>
                leftCount (metadata c) + rightCount (metadata c) + bothCount (metadata c)
                  = length (notes c))
           \<and> averageInterval (metadata c) =
               (if length (notes c) < 2 then 0
                else py_round
                  ((\<Sum>i = 1..<length (notes c). time (notes c ! i) - time (notes c ! (i - 1)))
                     / real (length (notes c) - 1)) 3)"
      if nd: "\<not> py_get (cfg ''note_density'') 1 < 1"
    proof -
      have eq: "c = c0" using plain nd by simp
      have part: "leftCount (metadata c) + rightCount (metadata c) + bothCount (metadata c)
                  = length (notes c)"
        if "\<forall>n \<in> set (notes c). note_type n \<in> {''left'', ''right'', ''both''}"
        using count_type_partition [OF that] eq meta0 by simp
      have avg: "averageInterval (metadata c) =
               (if length (notes c) < 2 then 0
                else py_round
                  ((\<Sum>i = 1..<length (notes c). time (notes c ! i) - time (notes c ! (i - 1)))
                     / real (length (notes c) - 1)) 3)"
        using eq meta0 np_mean_intervals [of "notes c"] by (simp add: not_less)
      show ?thesis
        using eq c0 meta0 part avg by (simp add: count_type_def)
    qed
    show ?thesis
      by (rule conjI [OF cnt]) (rule impI, erule rest)
  qed
  have B: "cfg ''kick_threshold'' \<noteq> None \<and> cfg ''snare_threshold'' \<noteq> None
        \<and> cfg ''hihat_threshold'' \<noteq> None \<and> cfg ''min_interval'' \<noteq> None
        \<and> mp ''kick'' \<noteq> None \<and> mp ''snare'' \<noteq> None \<and> mp ''hihat'' \<noteq> None \<longrightarrow>
        (\<exists>c' issues'. generate_for_difficulty evs dur cfg mp sid d = Inr (c', issues'))"
    using generate_chart_returns [of cfg mp evs sid d]
      generate_for_difficulty_returns [of evs cfg mp sid d _ dur]
    by blast
  show ?thesis
    by (rule conjI [OF _ B]) (rule impI, erule A)
qed


theorem chart_metadata_witness:
  "generate_for_difficulty
     [with_norms (raw_event (0) 5 4 3) (9 / 10) (1 / 10) (1 / 10),
      with_norms (raw_event (1 / 20) 5 4 3) (9 / 10) (1 / 10) (1 / 10),
      with_norms (raw_event (2006 / 10000) 5 4 3) (1 / 10) (8 / 10) (1 / 10)]
     10
     [''kick_threshold'' \<mapsto> 1 / 2, ''snare_threshold'' \<mapsto> 1 / 2,
      ''hihat_threshold'' \<mapsto> 1 / 2, ''min_interval'' \<mapsto> 1 / 10]
     [''kick'' \<mapsto> ''both'', ''snare'' \<mapsto> ''right'', ''hihat'' \<mapsto> ''left'']
     ''demo'' ''easy''
   = Inr (\<lparr>songId = ''demo'', difficulty = ''easy'',
        notes = [\<lparr>time = 0, note_type = ''both'', velocity = 9 / 10\<rparr>,
                 \<lparr>time = 201 / 1000, note_type = ''right'', velocity = 8 / 10\<rparr>],
        metadata = \<lparr>generatedBy = ''algorithm'', noteCount = 2, leftCount = 0,
                     rightCount = 1, bothCount = 1, averageInterval = 201 / 1000\<rparr>\<rparr>, [])
   \<and> \<not> py_get ([''kick_threshold'' \<mapsto> 1 / 2, ''snare_threshold'' \<mapsto> 1 / 2,
      ''hihat_threshold'' \<mapsto> 1 / 2, ''min_interval'' \<mapsto> 1 / 10] ''note_density'') (1 :: real) < 1
   \<and> noteCount (metadata (\<lparr>songId = ''demo'', difficulty = ''easy'',
        notes = [\<lparr>time = 0, note_type = ''both'', velocity = 9 / 10\<rparr>,
                 \<lparr>time = 201 / 1000, note_type = ''right'', velocity = 8 / 10\<rparr>],
        metadata = \<lparr>generatedBy = ''algorithm'', noteCount = 2, leftCount = 0,
                     rightCount = 1, bothCount = 1, averageInterval = 201 / 1000\<rparr>\<rparr>)) = 2
   \<and> leftCount (metadata (\<lparr>songId = ''demo'', difficulty = ''easy'',
        notes = [\<lparr>time = 0, note_type = ''both'', velocity = 9 / 10\<rparr>,
                 \<lparr>time = 201 / 1000, note_type = ''right'', velocity = 8 / 10\<rparr>],
        metadata = \<lparr>generatedBy = ''algorithm'', noteCount = 2, leftCount = 0,
                     rightCount = 1, bothCount = 1, averageInterval = 201 / 1000\<rparr>\<rparr>)) + rightCount (metadata (\<lparr>songId = ''demo'', difficulty = ''easy'',
        notes = [\<lparr>time = 0, note_type = ''both'', velocity = 9 / 10\<rparr>,
                 \<lparr>time = 201 / 1000, note_type = ''right'', velocity = 8 / 10\<rparr>],
        metadata = \<lparr>generatedBy = ''algorithm'', noteCount = 2, leftCount = 0,
                     rightCount = 1, bothCount = 1, averageInterval = 201 / 1000\<rparr>\<rparr>)) + bothCount (metadata (\<lparr>songId = ''demo'', difficulty = ''easy'',
        notes = [\<lparr>time = 0, note_type = ''both'', velocity = 9 / 10\<rparr>,
                 \<lparr>time = 201 / 1000, note_type = ''right'', velocity = 8 / 10\<rparr>],
        metadata = \<lparr>generatedBy = ''algorithm'', noteCount = 2, leftCount = 0,
                     rightCount = 1, bothCount = 1, averageInterval = 201 / 1000\<rparr>\<rparr>)) = 2
   \<and> averageInterval (metadata (\<lparr>songId = ''demo'', difficulty = ''easy'',
        notes = [\<lparr>time = 0, note_type = ''both'', velocity = 9 / 10\<rparr>,
                 \<lparr>time = 201 / 1000, note_type = ''right'', velocity = 8 / 10\<rparr>],
        metadata = \<lparr>generatedBy = ''algorithm'', noteCount = 2, leftCount = 0,
                     rightCount = 1, bothCount = 1, averageInterval = 201 / 1000\<rparr>\<rparr>)) = py_round ((201 / 1000 - 0) / 1) 3"
proof -
  let ?evs = "[with_norms (raw_event (0) 5 4 3) (9 / 10) (1 / 10) (1 / 10),
      with_norms (raw_event (1 / 20) 5 4 3) (9 / 10) (1 / 10) (1 / 10),
      with_norms (raw_event (2006 / 10000) 5 4 3) (1 / 10) (8 / 10) (1 / 10)]"
  let ?cfg = "[''kick_threshold'' \<mapsto> 1 / 2, ''snare_threshold'' \<mapsto> 1 / 2,
      ''hihat_threshold'' \<mapsto> 1 / 2, ''min_interval'' \<mapsto> 1 / 10]"
  let ?mp = "[''kick'' \<mapsto> ''both'', ''snare'' \<mapsto> ''right'', ''hihat'' \<mapsto> ''left'']"
  let ?c = "\<lparr>songId = ''demo'', difficulty = ''easy'',
        notes = [\<lparr>time = 0, note_type = ''both'', velocity = 9 / 10\<rparr>,
                 \<lparr>time = 201 / 1000, note_type = ''right'', velocity = 8 / 10\<rparr>],
        metadata = \<lparr>generatedBy = ''algorithm'', noteCount = 2, leftCount = 0,
                     rightCount = 1, bothCount = 1, averageInterval = 201 / 1000\<rparr>\<rparr>"
  have g: "generate_for_difficulty ?evs 10 ?cfg ?mp ''demo'' ''easy'' = Inr (?c, [])"
    by (simp add: generate_for_difficulty_def validate_chart_def check_note_def
        enumerate_eq_zip apply_density_filter_def py_sorted_def py_int_def
        generate_chart_def py_getitem_def generate_chart_step_def classify_event_def
        assign_note_def append_note_def py_truthy_def py_get_def with_norms_def raw_event_def
        py_round_def round_half_even_def count_type_def intervals_def np_mean_def Let_def)
  have nd: "\<not> py_get (?cfg ''note_density'') (1 :: real) < 1"
    by (simp add: py_get_def)
  have labels: "\<forall>n \<in> set (notes ?c). note_type n \<in> {''left'', ''right'', ''both''}"
    by simp
  note inst = chart_metadata [of ?evs 10 ?cfg ?mp "''demo''" "''easy''" ?c "[]"]
  from inst g have cnt: "noteCount (metadata ?c) = length (notes ?c)"
    by blast
  from inst g nd labels
  have part: "leftCount (metadata ?c) + rightCount (metadata ?c) + bothCount (metadata ?c)
                = length (notes ?c)"
    by blast
  from inst g nd
  have avg: "averageInterval (metadata ?c) =
               (if length (notes ?c) < 2 then 0
                else py_round
                  ((\<Sum>i = 1..<length (notes ?c). time (notes ?c ! i) - time (notes ?c ! (i - 1)))
                     / real (length (notes ?c) - 1)) 3)"
    by blast
  show ?thesis
    using g nd cnt part by (simp add: py_round_def round_half_even_def)
qed

text \<open>
  Claim C3, as the specification words it, fails: for the notes at 0, 0.2 and 0.401 s the
  mean of the two differences is 0.2005 s, and the chart's \<open>averageInterval\<close> is that mean
  rounded to three decimals, 0.2.
\<close>

theorem average_interval_counterexample:
  "generate_for_difficulty
     [with_norms (raw_event (0) 5 4 3) (9 / 10) (1 / 10) (1 / 10),
      with_norms (raw_event (1 / 5) 5 4 3) (9 / 10) (1 / 10) (1 / 10),
      with_norms (raw_event (401 / 1000) 5 4 3) (9 / 10) (1 / 10) (1 / 10)]
     10
     [''kick_threshold'' \<mapsto> 1 / 2, ''snare_threshold'' \<mapsto> 1 / 2,
      ''hihat_threshold'' \<mapsto> 1 / 2, ''min_interval'' \<mapsto> 1 / 10]
     [''kick'' \<mapsto> ''both'', ''snare'' \<mapsto> ''right'', ''hihat'' \<mapsto> ''left'']
     ''demo'' ''easy''
   = Inr (\<lparr>songId = ''demo'', difficulty = ''easy'',
        notes = [\<lparr>time = 0, note_type = ''both'', velocity = 9 / 10\<rparr>,
                 \<lparr>time = 1 / 5, note_type = ''both'', velocity = 9 / 10\<rparr>,
                 \<lparr>time = 401 / 1000, note_type = ''both'', velocity = 9 / 10\<rparr>],
        metadata = \<lparr>generatedBy = ''algorithm'', noteCount = 3, leftCount = 0,
                     rightCount = 0, bothCount = 3, averageInterval = 1 / 5\<rparr>\<rparr>, [])
   \<and> averageInterval (metadata (\<lparr>songId = ''demo'', difficulty = ''easy'',
        notes = [\<lparr>time = 0, note_type = ''both'', velocity = 9 / 10\<rparr>,
                 \<lparr>time = 1 / 5, note_type = ''both'', velocity = 9 / 10\<rparr>,
                 \<lparr>time = 401 / 1000, note_type = ''both'', velocity = 9 / 10\<rparr>],
        metadata = \<lparr>generatedBy = ''algorithm'', noteCount = 3, leftCount = 0,
                     rightCount = 0, bothCount = 3, averageInterval = 1 / 5\<rparr>\<rparr>)) = 1 / 5
   \<and> np_mean (intervals (notes (\<lparr>songId = ''demo'', difficulty = ''easy'',
        notes = [\<lparr>time = 0, note_type = ''both'', velocity = 9 / 10\<rparr>,
                 \<lparr>time = 1 / 5, note_type = ''both'', velocity = 9 / 10\<rparr>,
                 \<lparr>time = 401 / 1000, note_type = ''both'', velocity = 9 / 10\<rparr>],
        metadata = \<lparr>generatedBy = ''algorithm'', noteCount = 3, leftCount = 0,
                     rightCount = 0, bothCount = 3, averageInterval = 1 / 5\<rparr>\<rparr>))) = 401 / 2000
   \<and> averageInterval (metadata (\<lparr>songId = ''demo'', difficulty = ''easy'',
        notes = [\<lparr>time = 0, note_type = ''both'', velocity = 9 / 10\<rparr>,
                 \<lparr>time = 1 / 5, note_type = ''both'', velocity = 9 / 10\<rparr>,
                 \<lparr>time = 401 / 1000, note_type = ''both'', velocity = 9 / 10\<rparr>],
        metadata = \<lparr>generatedBy = ''algorithm'', noteCount = 3, leftCount = 0,
                     rightCount = 0, bothCount = 3, averageInterval = 1 / 5\<rparr>\<rparr>))
       \<noteq> np_mean (intervals (notes (\<lparr>songId = ''demo'', difficulty = ''easy'',
        notes = [\<lparr>time = 0, note_type = ''both'', velocity = 9 / 10\<rparr>,
                 \<lparr>time = 1 / 5, note_type = ''both'', velocity = 9 / 10\<rparr>,
                 \<lparr>time = 401 / 1000, note_type = ''both'', velocity = 9 / 10\<rparr>],
        metadata = \<lparr>generatedBy = ''algorithm'', noteCount = 3, leftCount = 0,
                     rightCount = 0, bothCount = 3, averageInterval = 1 / 5\<rparr>\<rparr>)))"
  by (simp add: generate_for_difficulty_def validate_chart_def check_note_def
        enumerate_eq_zip apply_density_filter_def py_sorted_def py_int_def
        generate_chart_def py_getitem_def generate_chart_step_def classify_event_def
        assign_note_def append_note_def py_truthy_def py_get_def with_norms_def raw_event_def
        py_round_def round_half_even_def count_type_def intervals_def np_mean_def Let_def)

text \<open>
  After a density filter the persisted chart keeps the counts per label and the average
  interval that the generator computed before filtering; only \<open>noteCount\<close> is set again.
  Here two notes are generated and one is kept: the chart has the single note labelled
  both, and still \<open>rightCount = 1\<close> and \<open>averageInterval = 0.201\<close>.
\<close>

lemma density_filter_stale_metadata:
  "generate_for_difficulty
     [with_norms (raw_event (0) 5 4 3) (9 / 10) (1 / 10) (1 / 10),
      with_norms (raw_event (1 / 20) 5 4 3) (9 / 10) (1 / 10) (1 / 10),
      with_norms (raw_event (2006 / 10000) 5 4 3) (1 / 10) (8 / 10) (1 / 10)]
     10
     [''kick_threshold'' \<mapsto> 1 / 2, ''snare_threshold'' \<mapsto> 1 / 2,
      ''hihat_threshold'' \<mapsto> 1 / 2, ''min_interval'' \<mapsto> 1 / 10,
      ''note_density'' \<mapsto> 1 / 2]
     [''kick'' \<mapsto> ''both'', ''snare'' \<mapsto> ''right'', ''hihat'' \<mapsto> ''left'']
     ''demo'' ''easy''
   = Inr (\<lparr>songId = ''demo'', difficulty = ''easy'',
        notes = [\<lparr>time = 0, note_type = ''both'', velocity = 9 / 10\<rparr>],
        metadata = \<lparr>generatedBy = ''algorithm'', noteCount = 1, leftCount = 0,
                     rightCount = 1, bothCount = 1, averageInterval = 201 / 1000\<rparr>\<rparr>, [])"
  by (simp add: generate_for_difficulty_def validate_chart_def check_note_def
        enumerate_eq_zip apply_density_filter_def py_sorted_def py_int_def
        generate_chart_def py_getitem_def generate_chart_step_def classify_event_def
        assign_note_def append_note_def py_truthy_def py_get_def with_norms_def raw_event_def
        py_round_def round_half_even_def count_type_def intervals_def np_mean_def Let_def)

end
